theory Spec2Isabelle
  imports Main "HOL-Library.Sublist"
begin

section \<open>Values exchanged with the remote API\<close>

text \<open>
  The four scripts talk to the inventory application through \<^verbatim>\<open>requests\<close>. A parsed
  response body (\<^verbatim>\<open>response.json()\<close>) is a JSON value. Dictionaries are association lists
  in the order of the body, read with \<open>map_of\<close>; the keys of a parsed body are distinct.
  Numbers are integers (the scripts never look at a float). A string is a list of code points
  below 256.
\<close>

datatype json = JNull | JBool bool | JInt int | JStr string
  | JList "json list" | JDict "(string \<times> json) list"

datatype py_error = RequestException | JSONDecodeError | KeyError | TypeError
  | AttributeError | IndexError | ValueError | Outside_model

text \<open>Truth value of an object, as \<^verbatim>\<open>if x:\<close> and \<^verbatim>\<open>not x\<close> test it.\<close>

fun py_truthy :: "json \<Rightarrow> bool" where
  "py_truthy JNull = False"
| "py_truthy (JBool b) = b"
| "py_truthy (JInt i) = (i \<noteq> 0)"
| "py_truthy (JStr s) = (s \<noteq> [])"
| "py_truthy (JList xs) = (xs \<noteq> [])"
| "py_truthy (JDict d) = (d \<noteq> [])"

text \<open>\<^verbatim>\<open>x[key]\<close> with a string key: only a dict has string keys.\<close>

fun subscript :: "json \<Rightarrow> string \<Rightarrow> py_error + json" where
  "subscript (JDict d) k = (case map_of d k of None \<Rightarrow> Inl KeyError | Some v \<Rightarrow> Inr v)"
| "subscript _ k = Inl TypeError"

text \<open>\<^verbatim>\<open>x.get(key, default)\<close>: only a dict has the method.\<close>

fun attr_get :: "json \<Rightarrow> string \<Rightarrow> json \<Rightarrow> py_error + json" where
  "attr_get (JDict d) k dflt = Inr (case map_of d k of None \<Rightarrow> dflt | Some v \<Rightarrow> v)"
| "attr_get _ k dflt = Inl AttributeError"

text \<open>\<^verbatim>\<open>x[0]\<close>: the first element of a list or string; a dict parsed from JSON has no key 0.\<close>

fun index0 :: "json \<Rightarrow> py_error + json" where
  "index0 (JList []) = Inl IndexError"
| "index0 (JList (x # xs)) = Inr x"
| "index0 (JStr []) = Inl IndexError"
| "index0 (JStr (c # cs)) = Inr (JStr [c])"
| "index0 (JDict d) = Inl KeyError"
| "index0 _ = Inl TypeError"

subsection \<open>\<^verbatim>\<open>str\<close>, \<^verbatim>\<open>repr\<close>, \<^verbatim>\<open>lower\<close> and \<^verbatim>\<open>in\<close>\<close>

definition digit_char :: "nat \<Rightarrow> char" where
  "digit_char d = ''0123456789abcdef'' ! d"

fun str_nat :: "nat \<Rightarrow> string" where
  "str_nat n = (if n < 10 then [digit_char n] else str_nat (n div 10) @ [digit_char (n mod 10)])"

definition str_int :: "int \<Rightarrow> string" where
  "str_int i = (if i < 0 then CHR ''-'' # str_nat (nat (- i)) else str_nat (nat i))"

text \<open>Code points below 256 that \<^verbatim>\<open>repr\<close> escapes: the control characters, the
  no-break space and the soft hyphen.\<close>

definition printable :: "char \<Rightarrow> bool" where
  "printable c = (let n = (of_char c :: nat) in \<not> (n < 32 \<or> (127 \<le> n \<and> n \<le> 160) \<or> n = 173))"

definition repr_char :: "char \<Rightarrow> char \<Rightarrow> string" where
  "repr_char q c =
     (if c = q \<or> c = CHR 0x5C then [CHR 0x5C, c]
      else if c = CHR 0x09 then [CHR 0x5C, CHR ''t'']
      else if c = CHR 0x0A then [CHR 0x5C, CHR ''n'']
      else if c = CHR 0x0D then [CHR 0x5C, CHR ''r'']
      else if printable c then [c]
      else [CHR 0x5C, CHR ''x'', digit_char (of_char c div 16), digit_char (of_char c mod 16)])"

text \<open>\<^verbatim>\<open>repr\<close> of a string: single quotes, unless the string has a single quote and no
  double quote.\<close>

definition repr_str :: "string \<Rightarrow> string" where
  "repr_str s =
     (let q = (if CHR 0x27 \<in> set s \<and> CHR 0x22 \<notin> set s then CHR 0x22 else CHR 0x27)
      in [q] @ concat (map (repr_char q) s) @ [q])"

fun join :: "string \<Rightarrow> string list \<Rightarrow> string" where
  "join sep [] = []"
| "join sep [x] = x"
| "join sep (x # y # ys) = x @ sep @ join sep (y # ys)"

fun py_repr :: "json \<Rightarrow> string" where
  "py_repr JNull = ''None''"
| "py_repr (JBool b) = (if b then ''True'' else ''False'')"
| "py_repr (JInt i) = str_int i"
| "py_repr (JStr s) = repr_str s"
| "py_repr (JList xs) = ''['' @ join '', '' (map py_repr xs) @ '']''"
| "py_repr (JDict d) =
     ''{'' @ join '', '' (map (\<lambda>kv. repr_str (fst kv) @ '': '' @ py_repr (snd kv)) d) @ ''}''"

definition py_str :: "json \<Rightarrow> string" where
  "py_str v = (case v of JStr s \<Rightarrow> s | _ \<Rightarrow> py_repr v)"

definition lower_char :: "char \<Rightarrow> char" where
  "lower_char c =
     (let n = (of_char c :: nat)
      in if (65 \<le> n \<and> n \<le> 90) \<or> (192 \<le> n \<and> n \<le> 222 \<and> n \<noteq> 215)
         then char_of (n + 32) else c)"

definition lower :: "string \<Rightarrow> string" where
  "lower s = map lower_char s"

text \<open>\<^verbatim>\<open>needle in hay\<close> on strings.\<close>

fun py_in :: "string \<Rightarrow> string \<Rightarrow> bool" where
  "py_in n [] = (n = [])"
| "py_in n (c # cs) = (prefix n (c # cs) \<or> py_in n cs)"

section \<open>The session and the process state\<close>

text \<open>
  A URL is the base URL followed by one of seven paths; the base URL and the credentials come
  from the environment and take no part in any decision, so a request names its path.
  \<open>Get\<close> carries the query parameters, \<open>Post\<close> the JSON payload.
\<close>

datatype endpoint = Api_root | User_token | User_me | User_group | Stock_location
  | Part_category | Part

datatype request = Get endpoint "(string \<times> json) list" | Post endpoint json

text \<open>
  What \<^verbatim>\<open>session.get\<close> and \<^verbatim>\<open>session.post\<close> give back: an exception of
  \<^verbatim>\<open>requests\<close> (no connection, timeout), or a response with its status code and its
  body, \<open>None\<close> when the body is not JSON (\<^verbatim>\<open>response.json()\<close> raises then).
\<close>

datatype reply = Request_exception | Reply int "json option"

text \<open>
  The remote application is a parameter: any state type \<open>'s\<close> and any function from a state
  and a request to a reply and the next state.
\<close>

type_synonym 's api = "'s \<Rightarrow> request \<Rightarrow> reply \<times> 's"

text \<open>
  The lines printed about a single resource; banners, progress lines and summaries are
  left out.
\<close>

datatype message =
    Already_exists string
  | Failed_to_create string int
  | Failed_warehouse_root
  | Created string
  | Categories_summary nat nat
  | Failed_category string int
  | Skipping_category
  | Part_ok string
  | Part_failed string
  | Parts_summary nat nat
  | Loaded_categories
  | Failed_to_load
  | Exists_with_id string json
  | Created_with_id string json
  | Token_auth_failed
  | Basic_auth_failed
  | Authentication_failed
  | Api_failed_to_respond
  | Api_not_available

datatype action = Sent request | Slept int | Printed message

text \<open>
  One process: the remote state, everything the process did so far in order, and the
  fields of the session and of the seeder object (\<^verbatim>\<open>location_cache\<close> of
  \<^verbatim>\<open>InvenTreeSeeder\<close>, \<^verbatim>\<open>categories\<close> of \<^verbatim>\<open>PartsSeeder\<close>,
  \<^verbatim>\<open>token\<close> of \<^verbatim>\<open>TenantSeeder\<close>).
\<close>

record 's world =
  remote :: 's
  trace :: "action list"
  location_cache :: "string \<rightharpoonup> json"
  categories :: "json \<rightharpoonup> json"
  authorization :: "string option"
  basic_auth :: bool
  token :: json

definition say :: "message \<Rightarrow> 's world \<Rightarrow> 's world" where
  "say m w = w\<lparr>trace := trace w @ [Printed m]\<rparr>"

text \<open>\<^verbatim>\<open>time.sleep(d)\<close>: a negative length raises \<^verbatim>\<open>ValueError\<close>.\<close>

definition sleep :: "int \<Rightarrow> 's world \<Rightarrow> (py_error + unit) \<times> 's world" where
  "sleep d w = (if d < 0 then (Inl ValueError, w) else (Inr (), w\<lparr>trace := trace w @ [Slept d]\<rparr>))"

text \<open>One call of the session: the remote state moves on and the request is recorded.\<close>

definition send :: "'s api \<Rightarrow> request \<Rightarrow> 's world \<Rightarrow> reply \<times> 's world" where
  "send api req w =
     (case api (remote w) req of
        (r, s') \<Rightarrow> (r, w\<lparr>remote := s', trace := trace w @ [Sent req]\<rparr>))"

text \<open>A call outside any \<^verbatim>\<open>try\<close>: the exception of the session propagates.\<close>

definition request :: "'s api \<Rightarrow> request \<Rightarrow> 's world \<Rightarrow> (py_error + int \<times> json option) \<times> 's world" where
  "request api req w =
     (case send api req w of
        (Request_exception, w') \<Rightarrow> (Inl RequestException, w')
      | (Reply status body, w') \<Rightarrow> (Inr (status, body), w'))"

definition response_json :: "json option \<Rightarrow> py_error + json" where
  "response_json body = (case body of None \<Rightarrow> Inl JSONDecodeError | Some v \<Rightarrow> Inr v)"

section \<open>Readiness poll and token retrieval (categories, locations, parts)\<close>

text \<open>\<^verbatim>\<open>range(n)\<close>.\<close>

definition py_range :: "int \<Rightarrow> int list" where
  "py_range n = map int [0..<nat n]"

text \<open>
  The loop of \<^verbatim>\<open>wait_for_api\<close>. The probe runs inside \<^verbatim>\<open>try\<close>, which catches the
  exceptions of the session; the pause after a refused probe runs outside it.
\<close>

fun wait_for_api_loop :: "'s api \<Rightarrow> int \<Rightarrow> int list \<Rightarrow> 's world \<Rightarrow> (py_error + bool) \<times> 's world" where
  "wait_for_api_loop api delay [] w = (Inr False, say Api_failed_to_respond w)"
| "wait_for_api_loop api delay (attempt # attempts) w =
     (case send api (Get Api_root []) w of
        (r, w1) \<Rightarrow>
          if (case r of Reply status body \<Rightarrow> status \<in> {200, 401, 403} | Request_exception \<Rightarrow> False)
          then (Inr True, w1)
          else (case sleep delay w1 of
                  (Inl e, w2) \<Rightarrow> (Inl e, w2)
                | (Inr u, w2) \<Rightarrow> wait_for_api_loop api delay attempts w2))"

definition wait_for_api :: "'s api \<Rightarrow> int \<Rightarrow> int \<Rightarrow> 's world \<Rightarrow> (py_error + bool) \<times> 's world" where
  "wait_for_api api max_retries delay w = wait_for_api_loop api delay (py_range max_retries) w"

definition get_api_token :: "'s api \<Rightarrow> 's world \<Rightarrow> (py_error + json) \<times> 's world" where
  "get_api_token api w =
     (case request api (Get User_token []) w of
        (Inl e, w1) \<Rightarrow> (Inl e, w1)
      | (Inr (status, body), w1) \<Rightarrow>
          if status = 200 then
            (case response_json body of
               Inl e \<Rightarrow> (Inl e, w1)
             | Inr j \<Rightarrow>
                 (case attr_get j ''token'' JNull of
                    Inl e \<Rightarrow> (Inl e, w1)
                  | Inr tok \<Rightarrow>
                      if py_truthy tok
                      then (Inr tok, w1\<lparr>authorization := Some (''Token '' @ py_str tok)\<rparr>)
                      else (Inr JNull, w1)))
          else (Inr JNull, w1))"

section \<open>seed_locations.py\<close>

definition get_existing_location :: "'s api \<Rightarrow> string \<Rightarrow> 's world \<Rightarrow> (py_error + json) \<times> 's world" where
  "get_existing_location api name w =
     (case request api (Get Stock_location [(''name'', JStr name)]) w of
        (Inl e, w1) \<Rightarrow> (Inl e, w1)
      | (Inr (status, body), w1) \<Rightarrow>
          if status = 200 then
            (case response_json body of
               Inl e \<Rightarrow> (Inl e, w1)
             | Inr locations \<Rightarrow>
                 if py_truthy locations then
                   (case (case locations of
                            JList xs \<Rightarrow> index0 locations
                          | _ \<Rightarrow> (case attr_get locations ''results'' (JList [JDict []]) of
                                    Inl e \<Rightarrow> Inl e
                                  | Inr results \<Rightarrow> index0 results)) of
                      Inl e \<Rightarrow> (Inl e, w1)
                    | Inr loc \<Rightarrow>
                        (case attr_get loc ''pk'' JNull of
                           Inl e \<Rightarrow> (Inl e, w1)
                         | Inr pk \<Rightarrow>
                             (Inr loc, w1\<lparr>location_cache := (location_cache w1)(name \<mapsto> pk)\<rparr>)))
                 else (Inr JNull, w1))
          else (Inr JNull, w1))"

definition create_location :: "'s api \<Rightarrow> string \<Rightarrow> string \<Rightarrow> json \<Rightarrow> 's world \<Rightarrow> (py_error + json) \<times> 's world" where
  "create_location api name description parent_id w =
     (let payload = JDict ([(''name'', JStr name), (''description'', JStr description)]
                           @ (if py_truthy parent_id then [(''parent'', parent_id)] else []))
      in case request api (Post Stock_location payload) w of
           (Inl e, w1) \<Rightarrow> (Inl e, w1)
         | (Inr (status, body), w1) \<Rightarrow>
             if status = 201 then
               (case response_json body of
                  Inl e \<Rightarrow> (Inl e, w1)
                | Inr location \<Rightarrow>
                    (case subscript location ''pk'' of
                       Inl e \<Rightarrow> (Inl e, w1)
                     | Inr pk \<Rightarrow>
                         (Inr location, w1\<lparr>location_cache := (location_cache w1)(name \<mapsto> pk)\<rparr>)))
             else if status = 400 then
               (case response_json body of
                  Inl e \<Rightarrow> (Inl e, w1)
                | Inr error \<Rightarrow>
                    if py_in ''already exists'' (lower (py_str error))
                    then get_existing_location api name (say (Already_exists name) w1)
                    else (Inr JNull, say (Failed_to_create name status) w1))
             else (Inr JNull, say (Failed_to_create name status) w1))"

definition ZONES :: "string list" where
  "ZONES = [''A'', ''B'']"

definition COLUMNS_PER_ZONE :: int where
  "COLUMNS_PER_ZONE = 4"

definition LEVELS :: int where
  "LEVELS = 7"

definition POWER_SUPPLY_COLUMN :: string where
  "POWER_SUPPLY_COLUMN = ''B-4''"

text \<open>The body of the loop over the levels of one column, then the loop.\<close>

fun seed_levels :: "'s api \<Rightarrow> string \<Rightarrow> json \<Rightarrow> bool \<Rightarrow> int list \<Rightarrow> 's world \<Rightarrow> (py_error + unit) \<times> 's world" where
  "seed_levels api column_name column_id is_power_supply [] w = (Inr (), w)"
| "seed_levels api column_name column_id is_power_supply (level # levels) w =
     (let shelf_name = column_name @ ''-'' @ str_int level
      in case create_location api shelf_name
                (''Level '' @ str_int level @ '' (1=Bottom, 7=Top)'') column_id w of
           (Inl e, w1) \<Rightarrow> (Inl e, w1)
         | (Inr shelf_location, w1) \<Rightarrow>
             if \<not> py_truthy shelf_location
             then seed_levels api column_name column_id is_power_supply levels w1
             else
               (case attr_get shelf_location ''pk'' JNull of
                  Inl e \<Rightarrow> (Inl e, w1)
                | Inr shelf_id \<Rightarrow>
                    if \<not> is_power_supply then
                      (case create_location api (shelf_name @ ''-A'')
                              ''IN - New Stock (FIFO: Use Last)'' shelf_id w1 of
                         (Inl e, w2) \<Rightarrow> (Inl e, w2)
                       | (Inr bin_a, w2) \<Rightarrow>
                           (case create_location api (shelf_name @ ''-B'')
                                   ''OUT - Old Stock (FIFO: Use First)'' shelf_id w2 of
                              (Inl e, w3) \<Rightarrow> (Inl e, w3)
                            | (Inr bin_b, w3) \<Rightarrow>
                                seed_levels api column_name column_id is_power_supply levels w3))
                    else seed_levels api column_name column_id is_power_supply levels w1))"

fun seed_columns :: "'s api \<Rightarrow> string \<Rightarrow> json \<Rightarrow> int list \<Rightarrow> 's world \<Rightarrow> (py_error + unit) \<times> 's world" where
  "seed_columns api zone zone_id [] w = (Inr (), w)"
| "seed_columns api zone zone_id (col # cols) w =
     (let column_name = zone @ ''-'' @ str_int col;
          is_power_supply = (column_name = POWER_SUPPLY_COLUMN);
          col_desc = (if is_power_supply then ''Power Supplies (Solid)''
                      else ''Column '' @ str_int col @ '' in Zone '' @ zone)
      in case create_location api column_name col_desc zone_id w of
           (Inl e, w1) \<Rightarrow> (Inl e, w1)
         | (Inr column_location, w1) \<Rightarrow>
             if \<not> py_truthy column_location then seed_columns api zone zone_id cols w1
             else
               (case attr_get column_location ''pk'' JNull of
                  Inl e \<Rightarrow> (Inl e, w1)
                | Inr column_id \<Rightarrow>
                    (case seed_levels api column_name column_id is_power_supply [1..LEVELS] w1 of
                       (Inl e, w2) \<Rightarrow> (Inl e, w2)
                     | (Inr u, w2) \<Rightarrow> seed_columns api zone zone_id cols w2)))"

fun seed_zones :: "'s api \<Rightarrow> json \<Rightarrow> string list \<Rightarrow> 's world \<Rightarrow> (py_error + unit) \<times> 's world" where
  "seed_zones api warehouse_id [] w = (Inr (), w)"
| "seed_zones api warehouse_id (zone # zones) w =
     (case create_location api (''Zone-'' @ zone)
             (''Zone '' @ zone @ '' - '' @
                (if zone = ''A'' then ''Standard Components'' else ''Standard + Power Supplies''))
             warehouse_id w of
        (Inl e, w1) \<Rightarrow> (Inl e, w1)
      | (Inr zone_location, w1) \<Rightarrow>
          if \<not> py_truthy zone_location then seed_zones api warehouse_id zones w1
          else
            (case attr_get zone_location ''pk'' JNull of
               Inl e \<Rightarrow> (Inl e, w1)
             | Inr zone_id \<Rightarrow>
                 (case seed_columns api zone zone_id [1..COLUMNS_PER_ZONE] w1 of
                    (Inl e, w2) \<Rightarrow> (Inl e, w2)
                  | (Inr u, w2) \<Rightarrow> seed_zones api warehouse_id zones w2)))"

definition seed_warehouse :: "'s api \<Rightarrow> 's world \<Rightarrow> (py_error + bool) \<times> 's world" where
  "seed_warehouse api w =
     (case create_location api ''Warehouse'' ''Main warehouse - Lean Inventory System'' JNull w of
        (Inl e, w1) \<Rightarrow> (Inl e, w1)
      | (Inr warehouse, w1) \<Rightarrow>
          if \<not> py_truthy warehouse then (Inr False, say Failed_warehouse_root w1)
          else
            (case attr_get warehouse ''pk'' JNull of
               Inl e \<Rightarrow> (Inl e, w1)
             | Inr warehouse_id \<Rightarrow>
                 (case seed_zones api warehouse_id ZONES w1 of
                    (Inl e, w2) \<Rightarrow> (Inl e, w2)
                  | (Inr u, w2) \<Rightarrow> (Inr True, w2))))"

text \<open>
  A fresh process of one of the three scripts that build their session with basic
  credentials: nothing done yet, empty caches.
\<close>

definition new_seeder :: "'s \<Rightarrow> 's world" where
  "new_seeder s = \<lparr>remote = s, trace = [], location_cache = Map.empty, categories = Map.empty,
     authorization = None, basic_auth = True, token = JNull\<rparr>"

text \<open>
  \<^verbatim>\<open>main\<close> of seed_locations.py. The result is the exit code of the process
  (\<^verbatim>\<open>sys.exit(1)\<close>, or 0 when \<^verbatim>\<open>main\<close> returns), or the exception that ends it.
\<close>

definition locations_main :: "'s api \<Rightarrow> 's \<Rightarrow> (py_error + int) \<times> 's world" where
  "locations_main api s =
     (case wait_for_api api 30 5 (new_seeder s) of
        (Inl e, w1) \<Rightarrow> (Inl e, w1)
      | (Inr False, w1) \<Rightarrow> (Inr 1, say Api_not_available w1)
      | (Inr True, w1) \<Rightarrow>
          (case get_api_token api w1 of
             (Inl e, w2) \<Rightarrow> (Inl e, w2)
           | (Inr tok, w2) \<Rightarrow>
               (case seed_warehouse api w2 of
                  (Inl e, w3) \<Rightarrow> (Inl e, w3)
                | (Inr ok, w3) \<Rightarrow> (Inr (if ok then 0 else 1), w3))))"

section \<open>seed_categories.py\<close>

definition DEFAULT_CATEGORIES :: "(string \<times> string) list" where
  "DEFAULT_CATEGORIES =
     [(''GPU'', ''Graphics Processing Units - NVIDIA, AMD, Intel Arc''),
      (''CPU'', ''Central Processing Units - Intel, AMD''),
      (''PSU'', ''Power Supply Units - Modular, Semi-Modular, Non-Modular''),
      (''Motherboard'', ''Motherboards - ATX, Micro-ATX, Mini-ITX''),
      (''SSD'', ''Solid State Drives - NVMe, SATA, M.2''),
      (''RAM'', ''Random Access Memory - DDR4, DDR5'')]"

definition get_existing_category :: "'s api \<Rightarrow> string \<Rightarrow> 's world \<Rightarrow> (py_error + json) \<times> 's world" where
  "get_existing_category api name w =
     (case request api (Get Part_category [(''name'', JStr name)]) w of
        (Inl e, w1) \<Rightarrow> (Inl e, w1)
      | (Inr (status, body), w1) \<Rightarrow>
          if status = 200 then
            (case response_json body of
               Inl e \<Rightarrow> (Inl e, w1)
             | Inr cats \<Rightarrow>
                 if py_truthy cats then
                   (case (case cats of
                            JList xs \<Rightarrow> index0 cats
                          | _ \<Rightarrow> (case attr_get cats ''results'' (JList [JDict []]) of
                                    Inl e \<Rightarrow> Inl e
                                  | Inr results \<Rightarrow> index0 results)) of
                      Inl e \<Rightarrow> (Inl e, w1)
                    | Inr cat \<Rightarrow> (Inr cat, w1))
                 else (Inr JNull, w1))
          else (Inr JNull, w1))"

definition create_category :: "'s api \<Rightarrow> string \<Rightarrow> string \<Rightarrow> 's world \<Rightarrow> (py_error + json) \<times> 's world" where
  "create_category api name description w =
     (let payload = JDict [(''name'', JStr name), (''description'', JStr description)]
      in case request api (Post Part_category payload) w of
           (Inl e, w1) \<Rightarrow> (Inl e, w1)
         | (Inr (status, body), w1) \<Rightarrow>
             if status = 201 then
               (case response_json body of
                  Inl e \<Rightarrow> (Inl e, w1)
                | Inr category \<Rightarrow> (Inr category, say (Created name) w1))
             else if status = 400 then
               (case response_json body of
                  Inl e \<Rightarrow> (Inl e, w1)
                | Inr error \<Rightarrow>
                    if py_in ''already exists'' (lower (py_str error))
                       \<or> py_in ''unique'' (lower (py_str error))
                    then get_existing_category api name (say (Already_exists name) w1)
                    else (Inr JNull, say (Failed_to_create name status) w1))
             else (Inr JNull, say (Failed_to_create name status) w1))"

text \<open>The loop of \<^verbatim>\<open>seed_categories\<close>, with its counter.\<close>

fun seed_categories_loop :: "'s api \<Rightarrow> (string \<times> string) list \<Rightarrow> nat \<Rightarrow> 's world \<Rightarrow> (py_error + nat) \<times> 's world" where
  "seed_categories_loop api [] created w = (Inr created, w)"
| "seed_categories_loop api (cat # cats) created w =
     (case create_category api (fst cat) (snd cat) w of
        (Inl e, w1) \<Rightarrow> (Inl e, w1)
      | (Inr result, w1) \<Rightarrow>
          seed_categories_loop api cats (if py_truthy result then created + 1 else created) w1)"

definition seed_categories :: "'s api \<Rightarrow> 's world \<Rightarrow> (py_error + bool) \<times> 's world" where
  "seed_categories api w =
     (case seed_categories_loop api DEFAULT_CATEGORIES 0 w of
        (Inl e, w1) \<Rightarrow> (Inl e, w1)
      | (Inr created, w1) \<Rightarrow>
          (Inr True, say (Categories_summary created (length DEFAULT_CATEGORIES)) w1))"

definition categories_main :: "'s api \<Rightarrow> 's \<Rightarrow> (py_error + int) \<times> 's world" where
  "categories_main api s =
     (case wait_for_api api 30 5 (new_seeder s) of
        (Inl e, w1) \<Rightarrow> (Inl e, w1)
      | (Inr False, w1) \<Rightarrow> (Inr 1, say Api_not_available w1)
      | (Inr True, w1) \<Rightarrow>
          (case get_api_token api w1 of
             (Inl e, w2) \<Rightarrow> (Inl e, w2)
           | (Inr tok, w2) \<Rightarrow>
               (case seed_categories api w2 of
                  (Inl e, w3) \<Rightarrow> (Inl e, w3)
                | (Inr ok, w3) \<Rightarrow> (Inr (if ok then 0 else 1), w3))))"

section \<open>seed_parts.py\<close>

text \<open>One entry of \<^verbatim>\<open>EXAMPLE_PARTS\<close>: name, description and \<^verbatim>\<open>min_stock\<close> when given.\<close>

datatype part_spec = Part_spec string string "int option"

definition EXAMPLE_PARTS :: "(string \<times> part_spec list) list" where
  "EXAMPLE_PARTS =
     [(''GPU'',
        [Part_spec ''NVIDIA GeForce RTX 4090'' ''24GB GDDR6X, 450W TDP'' (Some 2),
         Part_spec ''NVIDIA GeForce RTX 4080 Super'' ''16GB GDDR6X, 320W TDP'' (Some 3),
         Part_spec ''NVIDIA GeForce RTX 4070 Ti'' ''12GB GDDR6X, 285W TDP'' (Some 5),
         Part_spec ''AMD Radeon RX 7900 XTX'' ''24GB GDDR6, 355W TDP'' (Some 2),
         Part_spec ''AMD Radeon RX 7800 XT'' ''16GB GDDR6, 263W TDP'' (Some 4)]),
      (''CPU'',
        [Part_spec ''Intel Core i9-14900K'' ''24 Cores, 6.0GHz Boost, LGA1700'' (Some 3),
         Part_spec ''Intel Core i7-14700K'' ''20 Cores, 5.6GHz Boost, LGA1700'' (Some 5),
         Part_spec ''Intel Core i5-14600K'' ''14 Cores, 5.3GHz Boost, LGA1700'' (Some 8),
         Part_spec ''AMD Ryzen 9 7950X'' ''16 Cores, 5.7GHz Boost, AM5'' (Some 3),
         Part_spec ''AMD Ryzen 7 7800X3D'' ''8 Cores, 5.0GHz Boost, AM5, 3D V-Cache'' (Some 5),
         Part_spec ''AMD Ryzen 5 7600X'' ''6 Cores, 5.3GHz Boost, AM5'' (Some 10)]),
      (''RAM'',
        [Part_spec ''Corsair Vengeance DDR5 32GB (2x16GB)'' ''6000MHz CL36, Black'' (Some 10),
         Part_spec ''G.Skill Trident Z5 RGB DDR5 64GB (2x32GB)'' ''6400MHz CL32'' (Some 5),
         Part_spec ''Kingston Fury Beast DDR5 16GB (2x8GB)'' ''5200MHz CL40'' (Some 15),
         Part_spec ''Corsair Dominator Platinum DDR5 32GB (2x16GB)'' ''7200MHz CL34, RGB'' (Some 3)]),
      (''SSD'',
        [Part_spec ''Samsung 990 Pro 2TB'' ''NVMe Gen4, 7450MB/s Read'' (Some 10),
         Part_spec ''Samsung 990 Pro 1TB'' ''NVMe Gen4, 7450MB/s Read'' (Some 15),
         Part_spec ''WD Black SN850X 2TB'' ''NVMe Gen4, 7300MB/s Read'' (Some 8),
         Part_spec ''Crucial T700 2TB'' ''NVMe Gen5, 12400MB/s Read'' (Some 3),
         Part_spec ''SK Hynix Platinum P41 1TB'' ''NVMe Gen4, 7000MB/s Read'' (Some 12)]),
      (''PSU'',
        [Part_spec ''Corsair RM1000x 1000W'' ''80+ Gold, Fully Modular, ATX 3.0'' (Some 5),
         Part_spec ''Corsair RM850x 850W'' ''80+ Gold, Fully Modular'' (Some 10),
         Part_spec ''Seasonic Prime TX-1000 1000W'' ''80+ Titanium, Fully Modular'' (Some 3),
         Part_spec ''be quiet! Dark Power Pro 12 1200W'' ''80+ Titanium, Fully Modular'' (Some 2),
         Part_spec ''EVGA SuperNOVA 750 G7 750W'' ''80+ Gold, Fully Modular'' (Some 8)]),
      (''Motherboard'',
        [Part_spec ''ASUS ROG Maximus Z790 Hero'' ''Intel LGA1700, DDR5, ATX'' (Some 3),
         Part_spec ''MSI MPG Z790 Carbon WiFi'' ''Intel LGA1700, DDR5, ATX'' (Some 5),
         Part_spec ''Gigabyte Z790 AORUS Master'' ''Intel LGA1700, DDR5, ATX'' (Some 4),
         Part_spec ''ASUS ROG Crosshair X670E Hero'' ''AMD AM5, DDR5, ATX'' (Some 3),
         Part_spec ''MSI MEG X670E ACE'' ''AMD AM5, DDR5, E-ATX'' (Some 2),
         Part_spec ''ASRock B650E Steel Legend'' ''AMD AM5, DDR5, ATX, Budget'' (Some 8)])]"

text \<open>\<^verbatim>\<open>for x in v\<close>: the elements of a list, the keys of a dict, the characters of a
  string.\<close>

fun py_iter :: "json \<Rightarrow> py_error + json list" where
  "py_iter (JList xs) = Inr xs"
| "py_iter (JDict d) = Inr (map (\<lambda>kv. JStr (fst kv)) d)"
| "py_iter (JStr s) = Inr (map (\<lambda>c. JStr [c]) s)"
| "py_iter _ = Inl TypeError"

text \<open>The key under which a dict files a value: lists and dicts cannot be keys, and
  \<^verbatim>\<open>True\<close> and \<^verbatim>\<open>False\<close> are the keys 1 and 0.\<close>

fun dict_key :: "json \<Rightarrow> py_error + json" where
  "dict_key (JList xs) = Inl TypeError"
| "dict_key (JDict d) = Inl TypeError"
| "dict_key (JBool b) = Inr (JInt (if b then 1 else 0))"
| "dict_key v = Inr v"

text \<open>
  The loop of \<^verbatim>\<open>load_categories\<close>. It runs inside \<^verbatim>\<open>try\<close>: the first entry that
  raises ends it (result \<open>False\<close>), and the entries stored before stay stored.
\<close>

fun load_categories_loop :: "json list \<Rightarrow> (json \<rightharpoonup> json) \<Rightarrow> bool \<times> (json \<rightharpoonup> json)" where
  "load_categories_loop [] c = (True, c)"
| "load_categories_loop (cat # cats) c =
     (case subscript cat ''pk'' of
        Inl e \<Rightarrow> (False, c)
      | Inr pk \<Rightarrow>
          (case subscript cat ''name'' of
             Inl e \<Rightarrow> (False, c)
           | Inr nm \<Rightarrow>
               (case dict_key nm of
                  Inl e \<Rightarrow> (False, c)
                | Inr k \<Rightarrow> load_categories_loop cats (c(k \<mapsto> pk)))))"

definition load_categories :: "'s api \<Rightarrow> 's world \<Rightarrow> 's world" where
  "load_categories api w =
     (case send api (Get Part_category [(''limit'', JInt 100)]) w of
        (Request_exception, w1) \<Rightarrow> say Failed_to_load w1
      | (Reply status body, w1) \<Rightarrow>
          if status = 200 then
            (case response_json body of
               Inl e \<Rightarrow> say Failed_to_load w1
             | Inr data \<Rightarrow>
                 (case py_iter (case data of
                                  JDict d \<Rightarrow> (case map_of d ''results'' of None \<Rightarrow> data | Some r \<Rightarrow> r)
                                | _ \<Rightarrow> data) of
                    Inl e \<Rightarrow> say Failed_to_load w1
                  | Inr cats \<Rightarrow>
                      (case load_categories_loop cats (categories w1) of
                         (ok, c) \<Rightarrow>
                           say (if ok then Loaded_categories else Failed_to_load)
                             (w1\<lparr>categories := c\<rparr>))))
          else w1)"

definition parts_create_category :: "'s api \<Rightarrow> string \<Rightarrow> string \<Rightarrow> 's world \<Rightarrow> (py_error + json) \<times> 's world" where
  "parts_create_category api name description w =
     (case categories w (JStr name) of
        Some cached \<Rightarrow> (Inr cached, w)
      | None \<Rightarrow>
          (let payload = JDict [(''name'', JStr name), (''description'', JStr description)]
           in case request api (Post Part_category payload) w of
                (Inl e, w1) \<Rightarrow> (Inl e, w1)
              | (Inr (status, body), w1) \<Rightarrow>
                  if status = 201 then
                    (case response_json body of
                       Inl e \<Rightarrow> (Inl e, w1)
                     | Inr cat \<Rightarrow>
                         (case subscript cat ''pk'' of
                            Inl e \<Rightarrow> (Inl e, w1)
                          | Inr pk \<Rightarrow>
                              (Inr pk, say (Created name)
                                 (w1\<lparr>categories := (categories w1)(JStr name \<mapsto> pk)\<rparr>))))
                  else if status = 400 then
                    (let w2 = load_categories api w1
                     in (Inr (case categories w2 (JStr name) of None \<Rightarrow> JNull | Some v \<Rightarrow> v), w2))
                  else (Inr JNull, say (Failed_category name status) w1)))"

definition create_part :: "'s api \<Rightarrow> string \<Rightarrow> string \<Rightarrow> json \<Rightarrow> int \<Rightarrow> 's world \<Rightarrow> (py_error + bool) \<times> 's world" where
  "create_part api name description category_id min_stock w =
     (let payload = JDict [(''name'', JStr name), (''description'', JStr description),
                           (''category'', category_id), (''active'', JBool True),
                           (''component'', JBool True), (''purchaseable'', JBool True),
                           (''minimum_stock'', JInt min_stock)]
      in case request api (Post Part payload) w of
           (Inl e, w1) \<Rightarrow> (Inl e, w1)
         | (Inr (status, body), w1) \<Rightarrow>
             if status = 201 then (Inr True, w1)
             else if status = 400 then
               (case response_json body of
                  Inl e \<Rightarrow> (Inl e, w1)
                | Inr error \<Rightarrow>
                    (Inr (py_in ''already exists'' (lower (py_str error))
                          \<or> py_in ''unique'' (lower (py_str error))), w1))
             else (Inr False, w1))"

text \<open>The loop over the parts of one category, then the loop over the categories; both
  carry \<^verbatim>\<open>total_created\<close>.\<close>

fun seed_parts_loop :: "'s api \<Rightarrow> json \<Rightarrow> part_spec list \<Rightarrow> nat \<Rightarrow> 's world \<Rightarrow> (py_error + nat) \<times> 's world" where
  "seed_parts_loop api cat_id [] total_created w = (Inr total_created, w)"
| "seed_parts_loop api cat_id (Part_spec name description min_stock # parts) total_created w =
     (case create_part api name description cat_id
             (case min_stock of None \<Rightarrow> 5 | Some m \<Rightarrow> m) w of
        (Inl e, w1) \<Rightarrow> (Inl e, w1)
      | (Inr success, w1) \<Rightarrow>
          if success then seed_parts_loop api cat_id parts (total_created + 1) (say (Part_ok name) w1)
          else seed_parts_loop api cat_id parts total_created (say (Part_failed name) w1))"

fun seed_loop :: "'s api \<Rightarrow> (string \<times> part_spec list) list \<Rightarrow> nat \<Rightarrow> 's world \<Rightarrow> (py_error + nat) \<times> 's world" where
  "seed_loop api [] total_created w = (Inr total_created, w)"
| "seed_loop api ((category_name, parts) # rest) total_created w =
     (case parts_create_category api category_name
             (''Computer '' @ category_name @ '' components'') w of
        (Inl e, w1) \<Rightarrow> (Inl e, w1)
      | (Inr cat_id, w1) \<Rightarrow>
          if \<not> py_truthy cat_id then seed_loop api rest total_created (say Skipping_category w1)
          else
            (case seed_parts_loop api cat_id parts total_created w1 of
               (Inl e, w2) \<Rightarrow> (Inl e, w2)
             | (Inr n, w2) \<Rightarrow> seed_loop api rest n w2))"

definition seed :: "'s api \<Rightarrow> 's world \<Rightarrow> (py_error + unit) \<times> 's world" where
  "seed api w =
     (case seed_loop api EXAMPLE_PARTS 0 w of
        (Inl e, w1) \<Rightarrow> (Inl e, w1)
      | (Inr n, w1) \<Rightarrow>
          (Inr (), say (Parts_summary n (sum_list (map (\<lambda>kv. length (snd kv)) EXAMPLE_PARTS))) w1))"

definition parts_main :: "'s api \<Rightarrow> 's \<Rightarrow> (py_error + int) \<times> 's world" where
  "parts_main api s =
     (case wait_for_api api 15 3 (new_seeder s) of
        (Inl e, w1) \<Rightarrow> (Inl e, w1)
      | (Inr False, w1) \<Rightarrow> (Inr 1, say Api_not_available w1)
      | (Inr True, w1) \<Rightarrow>
          (case get_api_token api w1 of
             (Inl e, w2) \<Rightarrow> (Inl e, w2)
           | (Inr tok, w2) \<Rightarrow>
               (case seed api (load_categories api w2) of
                  (Inl e, w3) \<Rightarrow> (Inl e, w3)
                | (Inr u, w3) \<Rightarrow> (Inr 0, w3))))"

section \<open>seed_tenants.py\<close>

text \<open>
  An entry of the tenant configuration (\<^verbatim>\<open>DEFAULT_TENANTS\<close>, or the list read from the
  configuration file): \<^verbatim>\<open>name\<close>, and \<^verbatim>\<open>display_name\<close>, \<^verbatim>\<open>description\<close> and
  \<^verbatim>\<open>users\<close> when the entry has them. The users are only named in hints to the operator.
\<close>

datatype user_spec = User_spec string string string

datatype tenant = Tenant string "string option" "string option" "user_spec list"

definition DEFAULT_TENANTS :: "tenant list" where
  "DEFAULT_TENANTS =
     [Tenant ''demo'' (Some ''Demo Tenant'') (Some ''Default demo tenant for testing'')
        [User_spec ''demo_user'' ''demo123'' ''demo@inventory.local'']]"

definition ADMIN_USER :: string where
  "ADMIN_USER = ''admin''"

definition ADMIN_PASSWORD :: string where
  "ADMIN_PASSWORD = ''admin123''"

text \<open>
  \<^verbatim>\<open>str.title()\<close> on code points below 256. A character after a cased one is put in
  lower case, any other character in title case; the cased characters are the letters of
  ASCII and Latin-1 and the two ordinal indicators. The title case of the sharp s is
  \<^verbatim>\<open>Ss\<close>. The title case of the micro sign and of the y with diaeresis lies above 255:
  no string of the model holds it, and the model stops there with \<open>Outside_model\<close>, which is
  no exception of Python.
\<close>

definition is_cased :: "char \<Rightarrow> bool" where
  "is_cased c =
     (let n = (of_char c :: nat)
      in (65 \<le> n \<and> n \<le> 90) \<or> (97 \<le> n \<and> n \<le> 122) \<or> n = 170 \<or> n = 181 \<or> n = 186
         \<or> (192 \<le> n \<and> n \<le> 214) \<or> (216 \<le> n \<and> n \<le> 246) \<or> (248 \<le> n \<and> n \<le> 255))"

definition title_char :: "char \<Rightarrow> py_error + string" where
  "title_char c =
     (let n = (of_char c :: nat)
      in if n = 181 \<or> n = 255 then Inl Outside_model
         else if n = 223 then Inr ''Ss''
         else if (97 \<le> n \<and> n \<le> 122) \<or> (224 \<le> n \<and> n \<le> 254 \<and> n \<noteq> 247)
              then Inr [char_of (n - 32)]
         else Inr [c])"

fun title_from :: "bool \<Rightarrow> string \<Rightarrow> py_error + string" where
  "title_from previous_is_cased [] = Inr []"
| "title_from previous_is_cased (c # cs) =
     (case (if previous_is_cased then Inr [lower_char c] else title_char c) of
        Inl e \<Rightarrow> Inl e
      | Inr mapped \<Rightarrow>
          (case title_from (is_cased c) cs of
             Inl e \<Rightarrow> Inl e
           | Inr rest \<Rightarrow> Inr (mapped @ rest)))"

definition title :: "string \<Rightarrow> py_error + string" where
  "title s = title_from False s"

text \<open>A fresh \<^verbatim>\<open>TenantSeeder\<close>: a session without credentials, no token.\<close>

definition new_tenant_seeder :: "'s \<Rightarrow> 's world" where
  "new_tenant_seeder s = \<lparr>remote = s, trace = [], location_cache = Map.empty,
     categories = Map.empty, authorization = None, basic_auth = False, token = JNull\<rparr>"

text \<open>
  \<^verbatim>\<open>authenticate\<close>. Both attempts run inside \<^verbatim>\<open>try\<close> with \<^verbatim>\<open>except Exception\<close>:
  whatever is raised there is printed and the next step follows.
\<close>

definition basic_auth_fallback :: "'s api \<Rightarrow> 's world \<Rightarrow> bool \<times> 's world" where
  "basic_auth_fallback api w =
     (case send api (Get User_me []) (w\<lparr>basic_auth := True\<rparr>) of
        (Request_exception, w1) \<Rightarrow> (False, say Basic_auth_failed w1)
      | (Reply status body, w1) \<Rightarrow> (status = 200, w1))"

definition authenticate :: "'s api \<Rightarrow> 's world \<Rightarrow> bool \<times> 's world" where
  "authenticate api w =
     (case send api (Post User_token
               (JDict [(''username'', JStr ADMIN_USER), (''password'', JStr ADMIN_PASSWORD)])) w of
        (Request_exception, w1) \<Rightarrow> basic_auth_fallback api (say Token_auth_failed w1)
      | (Reply status body, w1) \<Rightarrow>
          if status = 200 then
            (case response_json body of
               Inl e \<Rightarrow> basic_auth_fallback api (say Token_auth_failed w1)
             | Inr j \<Rightarrow>
                 (case attr_get j ''token'' JNull of
                    Inl e \<Rightarrow> basic_auth_fallback api (say Token_auth_failed w1)
                  | Inr tok \<Rightarrow>
                      (True, w1\<lparr>token := tok,
                                 authorization := Some (''Token '' @ py_str tok)\<rparr>)))
          else basic_auth_fallback api w1)"

text \<open>
  The search loop of \<^verbatim>\<open>get_or_create_group\<close> and \<^verbatim>\<open>get_or_create_location\<close>:
  the first entry with the name ends the search with its \<^verbatim>\<open>pk\<close>; \<open>Inr None\<close> when no
  entry has the name.
\<close>

fun find_by_name :: "string \<Rightarrow> json list \<Rightarrow> py_error + json option" where
  "find_by_name name [] = Inr None"
| "find_by_name name (g # gs) =
     (case attr_get g ''name'' JNull of
        Inl e \<Rightarrow> Inl e
      | Inr n \<Rightarrow>
          if n = JStr name then
            (case subscript g ''pk'' of Inl e \<Rightarrow> Inl e | Inr pk \<Rightarrow> Inr (Some pk))
          else find_by_name name gs)"

text \<open>The creation half of both functions: they differ in the endpoint and the payload.\<close>

definition create_by_post :: "'s api \<Rightarrow> endpoint \<Rightarrow> string \<Rightarrow> json \<Rightarrow> 's world \<Rightarrow> (py_error + json) \<times> 's world" where
  "create_by_post api ep name data w =
     (case request api (Post ep data) w of
        (Inl e, w1) \<Rightarrow> (Inl e, w1)
      | (Inr (status, body), w1) \<Rightarrow>
          if status \<in> {200, 201} then
            (case response_json body of
               Inl e \<Rightarrow> (Inl e, w1)
             | Inr j \<Rightarrow>
                 (case attr_get j ''pk'' JNull of
                    Inl e \<Rightarrow> (Inl e, w1)
                  | Inr new_id \<Rightarrow> (Inr new_id, say (Created_with_id name new_id) w1)))
          else (Inr JNull, say (Failed_to_create name status) w1))"

text \<open>The common shape of both functions: search by name first, create when nothing is
  found.\<close>

definition get_or_create :: "'s api \<Rightarrow> endpoint \<Rightarrow> string \<Rightarrow> (string \<times> json) list \<Rightarrow> json \<Rightarrow> 's world \<Rightarrow> (py_error + json) \<times> 's world" where
  "get_or_create api ep name params data w =
     (case request api (Get ep params) w of
        (Inl e, w1) \<Rightarrow> (Inl e, w1)
      | (Inr (status, body), w1) \<Rightarrow>
          if status = 200 then
            (case response_json body of
               Inl e \<Rightarrow> (Inl e, w1)
             | Inr found \<Rightarrow>
                 (case found of
                    JList xs \<Rightarrow>
                      (case find_by_name name xs of
                         Inl e \<Rightarrow> (Inl e, w1)
                       | Inr (Some pk) \<Rightarrow> (Inr pk, say (Exists_with_id name pk) w1)
                       | Inr None \<Rightarrow> create_by_post api ep name data w1)
                  | _ \<Rightarrow> create_by_post api ep name data w1))
          else create_by_post api ep name data w1)"

definition get_or_create_group :: "'s api \<Rightarrow> string \<Rightarrow> 's world \<Rightarrow> (py_error + json) \<times> 's world" where
  "get_or_create_group api name w =
     get_or_create api User_group name [(''name'', JStr name)] (JDict [(''name'', JStr name)]) w"

definition get_or_create_location :: "'s api \<Rightarrow> string \<Rightarrow> string \<Rightarrow> json \<Rightarrow> 's world \<Rightarrow> (py_error + json) \<times> 's world" where
  "get_or_create_location api name description parent w =
     get_or_create api Stock_location name
       ([(''name'', JStr name)] @ (if py_truthy parent then [(''parent'', parent)] else []))
       (JDict ([(''name'', JStr name), (''description'', JStr description)]
               @ (if py_truthy parent then [(''parent'', parent)] else []))) w"

text \<open>The sub-locations of a tenant: the loop over the columns of a zone, then the loop
  over the zones.\<close>

fun tenant_columns :: "'s api \<Rightarrow> json \<Rightarrow> string \<Rightarrow> int list \<Rightarrow> 's world \<Rightarrow> (py_error + unit) \<times> 's world" where
  "tenant_columns api location_id zone [] w = (Inr (), w)"
| "tenant_columns api location_id zone (col # cols) w =
     (case get_or_create_location api (zone @ ''-'' @ str_int col) [] location_id w of
        (Inl e, w1) \<Rightarrow> (Inl e, w1)
      | (Inr subloc, w1) \<Rightarrow> tenant_columns api location_id zone cols w1)"

fun tenant_zones :: "'s api \<Rightarrow> json \<Rightarrow> string list \<Rightarrow> int \<Rightarrow> 's world \<Rightarrow> (py_error + unit) \<times> 's world" where
  "tenant_zones api location_id [] columns w = (Inr (), w)"
| "tenant_zones api location_id (zone # zones) columns w =
     (case tenant_columns api location_id zone [1..columns] w of
        (Inl e, w1) \<Rightarrow> (Inl e, w1)
      | (Inr u, w1) \<Rightarrow> tenant_zones api location_id zones columns w1)"

definition seed_tenant :: "'s api \<Rightarrow> tenant \<Rightarrow> 's world \<Rightarrow> (py_error + bool) \<times> 's world" where
  "seed_tenant api t w =
     (case t of Tenant name display descr users \<Rightarrow>
        (case (case display of None \<Rightarrow> title name | Some d \<Rightarrow> Inr d) of
           Inl e \<Rightarrow> (Inl e, w)
         | Inr display_name \<Rightarrow>
             (let description = (case descr of None \<Rightarrow> [] | Some d \<Rightarrow> d)
              in case get_or_create_group api (''tenant_'' @ name) w of
                   (Inl e, w1) \<Rightarrow> (Inl e, w1)
                 | (Inr group_id, w1) \<Rightarrow>
                     (case get_or_create_location api (display_name @ '' Warehouse'') description JNull w1 of
                        (Inl e, w2) \<Rightarrow> (Inl e, w2)
                      | (Inr location_id, w2) \<Rightarrow>
                          if py_truthy location_id then
                            (case tenant_zones api location_id [''A'', ''B''] 4 w2 of
                               (Inl e, w3) \<Rightarrow> (Inl e, w3)
                             | (Inr u, w3) \<Rightarrow> (Inr True, w3))
                          else (Inr True, w2)))))"

text \<open>The readiness loop of \<^verbatim>\<open>run\<close>: the \<^verbatim>\<open>else\<close> of the \<^verbatim>\<open>for\<close> is the empty list.\<close>

fun run_wait :: "'s api \<Rightarrow> int list \<Rightarrow> 's world \<Rightarrow> (py_error + bool) \<times> 's world" where
  "run_wait api [] w = (Inr False, say Api_not_available w)"
| "run_wait api (i # rest) w =
     (case send api (Get Api_root []) w of
        (r, w1) \<Rightarrow>
          if (case r of Reply status body \<Rightarrow> status = 200 | Request_exception \<Rightarrow> False)
          then (Inr True, w1)
          else (case sleep 5 w1 of
                  (Inl e, w2) \<Rightarrow> (Inl e, w2)
                | (Inr u, w2) \<Rightarrow> run_wait api rest w2))"

fun run_tenants :: "'s api \<Rightarrow> tenant list \<Rightarrow> 's world \<Rightarrow> (py_error + unit) \<times> 's world" where
  "run_tenants api [] w = (Inr (), w)"
| "run_tenants api (t # ts) w =
     (case seed_tenant api t w of
        (Inl e, w1) \<Rightarrow> (Inl e, w1)
      | (Inr ok, w1) \<Rightarrow> run_tenants api ts w1)"

text \<open>\<^verbatim>\<open>run(tenants)\<close>; \<open>None\<close> and the empty list both stand for the default tenants.\<close>

definition run :: "'s api \<Rightarrow> tenant list option \<Rightarrow> 's world \<Rightarrow> (py_error + bool) \<times> 's world" where
  "run api tenants w =
     (case run_wait api (py_range 12) w of
        (Inl e, w1) \<Rightarrow> (Inl e, w1)
      | (Inr False, w1) \<Rightarrow> (Inr False, w1)
      | (Inr True, w1) \<Rightarrow>
          (case authenticate api w1 of
             (False, w2) \<Rightarrow> (Inr False, say Authentication_failed w2)
           | (True, w2) \<Rightarrow>
               (case run_tenants api
                       (case tenants of None \<Rightarrow> DEFAULT_TENANTS
                        | Some ts \<Rightarrow> if ts = [] then DEFAULT_TENANTS else ts) w2 of
                  (Inl e, w3) \<Rightarrow> (Inl e, w3)
                | (Inr u, w3) \<Rightarrow> (Inr True, w3))))"

text \<open>The script itself: \<open>tenants\<close> is the content of the configuration file when there is one.\<close>

definition tenants_main :: "'s api \<Rightarrow> tenant list option \<Rightarrow> 's \<Rightarrow> (py_error + int) \<times> 's world" where
  "tenants_main api tenants s =
     (case run api tenants (new_tenant_seeder s) of
        (Inl e, w1) \<Rightarrow> (Inl e, w1)
      | (Inr success, w1) \<Rightarrow> (Inr (if success then 0 else 1), w1))"

section \<open>Reading a trace\<close>

definition sent :: "action list \<Rightarrow> request list" where
  "sent tr = concat (map (\<lambda>a. case a of Sent r \<Rightarrow> [r] | _ \<Rightarrow> []) tr)"

definition printed :: "action list \<Rightarrow> message list" where
  "printed tr = concat (map (\<lambda>a. case a of Printed m \<Rightarrow> [m] | _ \<Rightarrow> []) tr)"

definition slept :: "action list \<Rightarrow> int list" where
  "slept tr = concat (map (\<lambda>a. case a of Slept d \<Rightarrow> [d] | _ \<Rightarrow> []) tr)"

text \<open>The readiness probes among the requests.\<close>

definition probes :: "action list \<Rightarrow> request list" where
  "probes tr = filter (\<lambda>r. r = Get Api_root []) (sent tr)"

text \<open>The names of the resources that creation calls to an endpoint ask for, in the
  order of the calls.\<close>

definition posted_names :: "endpoint \<Rightarrow> action list \<Rightarrow> string list" where
  "posted_names ep tr =
     concat (map (\<lambda>r. case r of
                         Post ep' (JDict d) \<Rightarrow>
                           (if ep' = ep then (case map_of d ''name'' of Some (JStr n) \<Rightarrow> [n] | _ \<Rightarrow> [])
                            else [])
                       | _ \<Rightarrow> []) (sent tr))"

section \<open>Remote behaviours for examples\<close>

text \<open>A remote side that answers from a script, whatever is asked, and stops answering
  when the script ends.\<close>

definition scripted :: "reply list api" where
  "scripted s req = (case s of [] \<Rightarrow> (Request_exception, []) | r # rs \<Rightarrow> (r, rs))"

text \<open>A remote side that gives the same answer to every request.\<close>

definition always :: "reply \<Rightarrow> unit api" where
  "always r s req = (r, s)"

section \<open>A model of the remote application\<close>

text \<open>
  The remote application as the idempotence property describes it: a store of named
  resources, in which a name is taken within its kind and its parent. A creation call for a
  name that its kind already has under the same parent is answered with 400 and an
  "already exists" body, and any other creation call adds the resource under a fresh
  \<^verbatim>\<open>pk\<close> and is answered with 201 and the resource. A row is the kind of the resource
  (the endpoint it was created at), its \<^verbatim>\<open>pk\<close> and the fields of the creation
  payload; a resource without the field \<^verbatim>\<open>parent\<close> is a root.
\<close>

datatype row = Row endpoint int "(string \<times> json) list"

record db =
  next_pk :: int
  rows :: "row list"

fun row_kind :: "row \<Rightarrow> endpoint" where
  "row_kind (Row ep pk d) = ep"

fun row_name :: "row \<Rightarrow> json option" where
  "row_name (Row ep pk d) = map_of d ''name''"

fun row_parent :: "row \<Rightarrow> json option" where
  "row_parent (Row ep pk d) = map_of d ''parent''"

text \<open>The resource as the API shows it.\<close>

fun resource :: "row \<Rightarrow> json" where
  "resource (Row ep pk d) = JDict ((''pk'', JInt pk) # d)"

text \<open>A row passes a query when it has every field the query names with the value the
  query gives; \<^verbatim>\<open>limit\<close> is no field.\<close>

fun passes :: "(string \<times> json) list \<Rightarrow> row \<Rightarrow> bool" where
  "passes params (Row ep pk d) =
     list_all (\<lambda>kv. fst kv = ''limit'' \<or> map_of d (fst kv) = Some (snd kv)) params"

definition select :: "endpoint \<Rightarrow> (string \<times> json) list \<Rightarrow> db \<Rightarrow> row list" where
  "select ep params s = filter (\<lambda>r. row_kind r = ep \<and> passes params r) (rows s)"

definition present :: "db \<Rightarrow> endpoint \<Rightarrow> string \<Rightarrow> json option \<Rightarrow> bool" where
  "present s ep n parent =
     list_ex (\<lambda>r. row_kind r = ep \<and> row_name r = Some (JStr n) \<and> row_parent r = parent) (rows s)"

definition already_exists_body :: json where
  "already_exists_body = JDict [(''name'', JList [JStr ''A resource with this name already exists.''])]"

definition name_required_body :: json where
  "name_required_body = JDict [(''name'', JList [JStr ''This field is required.''])]"

definition token_body :: json where
  "token_body = JDict [(''token'', JStr ''0123456789abcdef'')]"

fun inventree :: "db api" where
  "inventree s (Get Api_root params) = (Reply 200 (Some (JDict [])), s)"
| "inventree s (Get User_token params) = (Reply 200 (Some token_body), s)"
| "inventree s (Get User_me params) = (Reply 200 (Some (JDict [(''username'', JStr ''admin'')])), s)"
| "inventree s (Get ep params) = (Reply 200 (Some (JList (map resource (select ep params s)))), s)"
| "inventree s (Post Api_root payload) = (Reply 405 None, s)"
| "inventree s (Post User_me payload) = (Reply 405 None, s)"
| "inventree s (Post User_token payload) = (Reply 200 (Some token_body), s)"
| "inventree s (Post ep (JDict d)) =
     (case map_of d ''name'' of
        Some (JStr n) \<Rightarrow>
          if present s ep n (map_of d ''parent'') then (Reply 400 (Some already_exists_body), s)
          else (Reply 201 (Some (resource (Row ep (next_pk s) d))),
                s\<lparr>next_pk := next_pk s + 1, rows := rows s @ [Row ep (next_pk s) d]\<rparr>)
      | _ \<Rightarrow> (Reply 400 (Some name_required_body), s))"
| "inventree s (Post ep payload) = (Reply 400 (Some name_required_body), s)"

text \<open>Identifiers are positive and every resource has a name.\<close>

fun row_ok :: "row \<Rightarrow> bool" where
  "row_ok (Row ep pk d) = (0 < pk \<and> (case map_of d ''name'' of Some (JStr n) \<Rightarrow> True | _ \<Rightarrow> False))"

definition db_ok :: "db \<Rightarrow> bool" where
  "db_ok s = (0 < next_pk s \<and> list_all row_ok (rows s))"

text \<open>No kind has two resources of one name under one parent.\<close>

definition unique_names :: "db \<Rightarrow> bool" where
  "unique_names s = distinct (map (\<lambda>r. (row_kind r, row_parent r, row_name r)) (rows s))"

definition empty_db :: db where
  "empty_db = \<lparr>next_pk = 1, rows = []\<rparr>"

text \<open>
  The full seeding sequence: the four scripts one after the other, each a process of its
  own, on the remote state the one before left. The result is that state at the end, or
  \<open>None\<close> when a script ends with an exception or an exit code other than 0.
\<close>

definition after_script :: "(py_error + int) \<times> 's world \<Rightarrow> 's option" where
  "after_script r = (case r of (Inr code, w) \<Rightarrow> if code = 0 then Some (remote w) else None
                     | (Inl e, w) \<Rightarrow> None)"

definition seed_all :: "'s api \<Rightarrow> 's \<Rightarrow> 's option" where
  "seed_all api s =
     (case after_script (categories_main api s) of
        None \<Rightarrow> None
      | Some s1 \<Rightarrow>
          (case after_script (locations_main api s1) of
             None \<Rightarrow> None
           | Some s2 \<Rightarrow>
               (case after_script (parts_main api s2) of
                  None \<Rightarrow> None
                | Some s3 \<Rightarrow> after_script (tenants_main api None s3))))"

section \<open>Terms for stating properties of the readiness polls\<close>

text \<open>What the remote side answers to \<open>n\<close> probes in a row, starting from the state \<open>s\<close>.\<close>

fun probe_replies :: "'s api \<Rightarrow> 's \<Rightarrow> nat \<Rightarrow> reply list" where
  "probe_replies api s 0 = []"
| "probe_replies api s (Suc n) =
     (case api s (Get Api_root []) of (r, s') \<Rightarrow> r # probe_replies api s' n)"

text \<open>A response with one of the status codes 200, 401, 403; a response with status 200.\<close>

definition accepted :: "reply \<Rightarrow> bool" where
  "accepted r = (case r of Reply status body \<Rightarrow> status \<in> {200, 401, 403} | Request_exception \<Rightarrow> False)"

definition answered_200 :: "reply \<Rightarrow> bool" where
  "answered_200 r = (case r of Reply status body \<Rightarrow> status = 200 | Request_exception \<Rightarrow> False)"

text \<open>The number of probes answered before the first one that \<open>ok\<close> accepts.\<close>

definition refused_before :: "(reply \<Rightarrow> bool) \<Rightarrow> reply list \<Rightarrow> nat" where
  "refused_before ok rs = length (takeWhile (\<lambda>r. \<not> ok r) rs)"

text \<open>\<open>k\<close> rounds of a probe followed by a pause of \<open>d\<close> seconds.\<close>

definition rounds :: "nat \<Rightarrow> int \<Rightarrow> action list" where
  "rounds k d = concat (replicate k [Sent (Get Api_root []), Slept d])"

section \<open>Terms for stating properties of the upserts\<close>

text \<open>The resource a lookup by name finds in the body of its answer: the first element of
  a list, or the first element of the \<^verbatim>\<open>results\<close> of a page.\<close>

definition first_found :: "json \<Rightarrow> json option" where
  "first_found found =
     (case found of
        JList (x # xs) \<Rightarrow> Some x
      | JDict d \<Rightarrow> (case map_of d ''results'' of Some (JList (x # xs)) \<Rightarrow> Some x | _ \<Rightarrow> None)
      | _ \<Rightarrow> None)"

text \<open>The payloads of the creation calls.\<close>

definition location_payload :: "string \<Rightarrow> string \<Rightarrow> json \<Rightarrow> json" where
  "location_payload name description parent_id =
     JDict ([(''name'', JStr name), (''description'', JStr description)]
            @ (if py_truthy parent_id then [(''parent'', parent_id)] else []))"

definition category_payload :: "string \<Rightarrow> string \<Rightarrow> json" where
  "category_payload name description =
     JDict [(''name'', JStr name), (''description'', JStr description)]"

definition part_payload :: "string \<Rightarrow> string \<Rightarrow> json \<Rightarrow> int \<Rightarrow> json" where
  "part_payload name description category_id min_stock =
     JDict [(''name'', JStr name), (''description'', JStr description),
            (''category'', category_id), (''active'', JBool True),
            (''component'', JBool True), (''purchaseable'', JBool True),
            (''minimum_stock'', JInt min_stock)]"

text \<open>The test on the body of a 400 answer: \<^verbatim>\<open>"already exists" in str(error).lower()\<close>,
  and the same for \<^verbatim>\<open>"unique"\<close>.\<close>

definition says_already_exists :: "json \<Rightarrow> bool" where
  "says_already_exists error = py_in ''already exists'' (lower (py_str error))"

definition says_unique :: "json \<Rightarrow> bool" where
  "says_unique error = py_in ''unique'' (lower (py_str error))"

section \<open>The names of the hierarchies, by position\<close>

text \<open>
  The names the warehouse seeder asks for, in the order of its traversal: a shelf and,
  unless its column holds the power supplies, its two bins; a column and its shelves; a
  zone and its columns; the root and the zones.
\<close>

definition shelf_names :: "string \<Rightarrow> bool \<Rightarrow> int \<Rightarrow> string list" where
  "shelf_names column_name is_power_supply level =
     (column_name @ ''-'' @ str_int level)
     # (if is_power_supply then []
        else [column_name @ ''-'' @ str_int level @ ''-A'',
              column_name @ ''-'' @ str_int level @ ''-B''])"

definition column_names :: "string \<Rightarrow> int \<Rightarrow> string list" where
  "column_names zone col =
     (zone @ ''-'' @ str_int col)
     # concat (map (shelf_names (zone @ ''-'' @ str_int col)
                      (zone @ ''-'' @ str_int col = POWER_SUPPLY_COLUMN)) [1..LEVELS])"

definition zone_names :: "string \<Rightarrow> string list" where
  "zone_names zone = (''Zone-'' @ zone) # concat (map (column_names zone) [1..COLUMNS_PER_ZONE])"

definition warehouse_names :: "string list" where
  "warehouse_names = ''Warehouse'' # concat (map zone_names ZONES)"

text \<open>The names of the sub-locations of a tenant, in the order of the traversal.\<close>

definition tenant_sublocation_names :: "string list" where
  "tenant_sublocation_names =
     concat (map (\<lambda>zone. map (\<lambda>col. zone @ ''-'' @ str_int col) [1..4]) [''A'', ''B''])"

text \<open>Every creation call for a location yields one: it returns a location, not
  \<^verbatim>\<open>None\<close>, and raises nothing.\<close>

definition creations_succeed :: "'s api \<Rightarrow> bool" where
  "creations_succeed api =
     (\<forall>name description parent_id w.
        case create_location api name description parent_id w of
          (Inr loc, w') \<Rightarrow> py_truthy loc
        | (Inl e, w') \<Rightarrow> False)"

text \<open>The shelves of the columns with the A/B split, and the shelves of the column
  without it.\<close>

definition split_shelves :: "string list" where
  "split_shelves =
     concat (map (\<lambda>zone. concat (map (\<lambda>col.
        if zone @ ''-'' @ str_int col = POWER_SUPPLY_COLUMN then []
        else map (\<lambda>level. zone @ ''-'' @ str_int col @ ''-'' @ str_int level) [1..LEVELS])
        [1..COLUMNS_PER_ZONE])) ZONES)"

definition solid_shelves :: "string list" where
  "solid_shelves = map (\<lambda>level. POWER_SUPPLY_COLUMN @ ''-'' @ str_int level) [1..LEVELS]"

text \<open>The locations below a location, by name.\<close>

definition below :: "string \<Rightarrow> string list \<Rightarrow> string list" where
  "below parent names = filter (prefix (parent @ ''-'')) names"

text \<open>The names that lookups by name at an endpoint ask for, in the order of the calls.\<close>

definition queried_names :: "endpoint \<Rightarrow> action list \<Rightarrow> string list" where
  "queried_names ep tr =
     concat (map (\<lambda>r. case r of
                         Get ep' params \<Rightarrow>
                           (if ep' = ep then (case map_of params ''name'' of Some (JStr n) \<Rightarrow> [n] | _ \<Rightarrow> [])
                            else [])
                       | _ \<Rightarrow> []) (sent tr))"

section \<open>Facts about the session\<close>

lemma request_Reply:
  "api (remote w) req = (Reply status body, s') \<Longrightarrow>
     request api req w = (Inr (status, body), w\<lparr>remote := s', trace := trace w @ [Sent req]\<rparr>)"
  by (simp add: request_def send_def)

lemma request_exception:
  "api (remote w) req = (Request_exception, s') \<Longrightarrow>
     request api req w = (Inl RequestException, w\<lparr>remote := s', trace := trace w @ [Sent req]\<rparr>)"
  by (simp add: request_def send_def)

section \<open>One call of an upsert, by the answer it gets\<close>

lemma first_found_index0:
  assumes "first_found found = Some x"
  shows "py_truthy found"
    and "(case found of JList xs \<Rightarrow> index0 found
          | _ \<Rightarrow> (case attr_get found ''results'' (JList [JDict []]) of
                    Inl e \<Rightarrow> Inl e | Inr results \<Rightarrow> index0 results)) = Inr x"
  using assms
  by (auto simp: first_found_def split: json.splits list.splits option.splits)

lemma get_existing_location_found:
  assumes "api (remote w) (Get Stock_location [(''name'', JStr name)]) = (Reply 200 (Some found), s')"
    and "first_found found = Some loc"
    and "attr_get loc ''pk'' JNull = Inr pk"
  shows "get_existing_location api name w
     = (Inr loc, w\<lparr>remote := s',
                    trace := trace w @ [Sent (Get Stock_location [(''name'', JStr name)])],
                    location_cache := (location_cache w)(name \<mapsto> pk)\<rparr>)"
  using assms first_found_index0 [OF assms(2)]
  by (simp add: get_existing_location_def request_Reply response_json_def)

lemma get_existing_category_found:
  assumes "api (remote w) (Get Part_category [(''name'', JStr name)]) = (Reply 200 (Some found), s')"
    and "first_found found = Some cat"
  shows "get_existing_category api name w
     = (Inr cat, w\<lparr>remote := s',
                    trace := trace w @ [Sent (Get Part_category [(''name'', JStr name)])]\<rparr>)"
  using assms first_found_index0 [OF assms(2)]
  by (simp add: get_existing_category_def request_Reply response_json_def)

lemma create_location_conflict:
  assumes "api (remote w) (Post Stock_location (location_payload name description parent_id))
      = (Reply 400 (Some error), s1)"
    and "says_already_exists error"
  shows "create_location api name description parent_id w
     = get_existing_location api name
         (w\<lparr>remote := s1,
            trace := trace w @ [Sent (Post Stock_location (location_payload name description parent_id)),
                                Printed (Already_exists name)]\<rparr>)"
  using assms
  by (simp add: create_location_def location_payload_def says_already_exists_def request_Reply
      response_json_def say_def)

lemma create_category_conflict:
  assumes "api (remote w) (Post Part_category (category_payload name description))
      = (Reply 400 (Some error), s1)"
    and "says_already_exists error \<or> says_unique error"
  shows "create_category api name description w
     = get_existing_category api name
         (w\<lparr>remote := s1,
            trace := trace w @ [Sent (Post Part_category (category_payload name description)),
                                Printed (Already_exists name)]\<rparr>)"
  using assms
  by (simp add: create_category_def category_payload_def says_already_exists_def says_unique_def
      request_Reply response_json_def say_def)

lemma create_part_conflict:
  assumes "api (remote w) (Post Part (part_payload name description category_id min_stock))
      = (Reply 400 (Some error), s1)"
    and "says_already_exists error \<or> says_unique error"
  shows "create_part api name description category_id min_stock w
     = (Inr True, w\<lparr>remote := s1,
            trace := trace w @ [Sent (Post Part (part_payload name description category_id min_stock))]\<rparr>)"
  using assms
  by (simp add: create_part_def part_payload_def says_already_exists_def says_unique_def
      request_Reply response_json_def)

lemma create_location_created:
  assumes "api (remote w) (Post Stock_location (location_payload name description parent_id))
      = (Reply 201 (Some location), s1)"
    and "subscript location ''pk'' = Inr pk"
  shows "create_location api name description parent_id w
     = (Inr location,
        w\<lparr>remote := s1,
          trace := trace w @ [Sent (Post Stock_location (location_payload name description parent_id))],
          location_cache := (location_cache w)(name \<mapsto> pk)\<rparr>)"
  using assms
  by (simp add: create_location_def location_payload_def request_Reply response_json_def)

lemma create_location_failed:
  assumes "api (remote w) (Post Stock_location (location_payload name description parent_id))
      = (Reply status body, s1)"
    and "status \<noteq> 201" and "status = 400 \<longrightarrow> (\<exists>error. body = Some error \<and> \<not> says_already_exists error)"
  shows "create_location api name description parent_id w
     = (Inr JNull,
        w\<lparr>remote := s1,
          trace := trace w @ [Sent (Post Stock_location (location_payload name description parent_id)),
                              Printed (Failed_to_create name status)]\<rparr>)"
  using assms
  by (auto simp: create_location_def location_payload_def request_Reply response_json_def
      says_already_exists_def say_def)

lemma create_category_created:
  assumes "api (remote w) (Post Part_category (category_payload name description))
      = (Reply 201 (Some category), s1)"
  shows "create_category api name description w
     = (Inr category,
        w\<lparr>remote := s1,
          trace := trace w @ [Sent (Post Part_category (category_payload name description)),
                              Printed (Created name)]\<rparr>)"
  using assms
  by (simp add: create_category_def category_payload_def request_Reply response_json_def say_def)

lemma create_category_failed:
  assumes "api (remote w) (Post Part_category (category_payload name description))
      = (Reply status body, s1)"
    and "status \<noteq> 201"
    and "status = 400 \<longrightarrow> (\<exists>error. body = Some error \<and> \<not> says_already_exists error \<and> \<not> says_unique error)"
  shows "create_category api name description w
     = (Inr JNull,
        w\<lparr>remote := s1,
          trace := trace w @ [Sent (Post Part_category (category_payload name description)),
                              Printed (Failed_to_create name status)]\<rparr>)"
  using assms
  by (auto simp: create_category_def category_payload_def request_Reply response_json_def
      says_already_exists_def says_unique_def say_def)

lemma create_part_created:
  assumes "api (remote w) (Post Part (part_payload name description category_id min_stock))
      = (Reply 201 body, s1)"
  shows "create_part api name description category_id min_stock w
     = (Inr True,
        w\<lparr>remote := s1,
          trace := trace w @ [Sent (Post Part (part_payload name description category_id min_stock))]\<rparr>)"
  using assms
  by (simp add: create_part_def part_payload_def request_Reply)

lemma create_part_failed:
  assumes "api (remote w) (Post Part (part_payload name description category_id min_stock))
      = (Reply status body, s1)"
    and "status \<noteq> 201"
    and "status = 400 \<longrightarrow> (\<exists>error. body = Some error \<and> \<not> says_already_exists error \<and> \<not> says_unique error)"
  shows "create_part api name description category_id min_stock w
     = (Inr False,
        w\<lparr>remote := s1,
          trace := trace w @ [Sent (Post Part (part_payload name description category_id min_stock))]\<rparr>)"
  using assms
  by (auto simp: create_part_def part_payload_def request_Reply response_json_def
      says_already_exists_def says_unique_def)

lemma location_payload_dict:
  obtains d where "location_payload name description parent_id = JDict d"
    and "map_of d ''name'' = Some (JStr name)"
  by (simp add: location_payload_def)

lemma category_payload_dict:
  obtains d where "category_payload name description = JDict d"
    and "map_of d ''name'' = Some (JStr name)"
  by (simp add: category_payload_def)

lemma part_payload_dict:
  obtains d where "part_payload name description category_id min_stock = JDict d"
    and "map_of d ''name'' = Some (JStr name)"
  by (simp add: part_payload_def)

section \<open>What the upserts leave in the trace\<close>

lemma posted_names_append:
  "posted_names ep (a @ b) = posted_names ep a @ posted_names ep b"
  by (simp add: posted_names_def sent_def)

lemma posted_names_simps:
  "posted_names ep [] = []"
  "posted_names ep (Printed m # tr) = posted_names ep tr"
  "posted_names ep (Slept k # tr) = posted_names ep tr"
  "posted_names ep (Sent (Get ep' params) # tr) = posted_names ep tr"
  "posted_names ep (Sent (Post ep (JDict d)) # tr)
     = (case map_of d ''name'' of Some (JStr n) \<Rightarrow> [n] | _ \<Rightarrow> []) @ posted_names ep tr"
  by (simp_all add: posted_names_def sent_def)

lemma posted_names_location_payload:
  "posted_names Stock_location (Sent (Post Stock_location (location_payload name description parent_id)) # tr)
     = name # posted_names Stock_location tr"
  by (simp add: location_payload_def posted_names_simps)

lemma trace_request: "trace (snd (request api req w)) = trace w @ [Sent req]"
  by (simp add: request_def send_def split: prod.splits reply.splits)

lemma trace_get_existing_location:
  "trace (snd (get_existing_location api name w))
      = trace w @ [Sent (Get Stock_location [(''name'', JStr name)])]"
  by (auto simp: get_existing_location_def request_def send_def
      split: prod.splits reply.splits sum.splits)

lemma result_get_existing_location:
  assumes "fst (get_existing_location api name w) = Inr loc"
  shows "loc = JNull \<or> (\<exists>d. loc = JDict d)"
proof -
  have dict: "attr_get j ''pk'' JNull = Inr pk \<Longrightarrow> \<exists>d. j = JDict d" for j pk
    by (cases j) simp_all
  from assms show ?thesis
    by (auto simp: get_existing_location_def split: prod.splits sum.splits if_splits dest: dict)
qed

text \<open>What one call of \<^verbatim>\<open>create_location\<close> leaves in the trace, whatever the answers.\<close>

lemma trace_create_location:
  "\<exists>rest. trace (snd (create_location api name description parent_id w))
       = trace w @ Sent (Post Stock_location (location_payload name description parent_id)) # rest
     \<and> rest \<in> {[], [Printed (Failed_to_create name 400)],
                [Printed (Already_exists name), Sent (Get Stock_location [(''name'', JStr name)])]}
          \<union> (\<lambda>status. [Printed (Failed_to_create name status)]) ` UNIV"
proof -
  let ?req = "Post Stock_location (location_payload name description parent_id)"
  obtain r w1 where req: "request api ?req w = (r, w1)"
    by (cases "request api ?req w")
  then have t1: "trace w1 = trace w @ [Sent ?req]"
    using trace_request [of api ?req w] by simp
  have unfold: "create_location api name description parent_id w
      = (case request api ?req w of
           (Inl e, w1) \<Rightarrow> (Inl e, w1)
         | (Inr (status, body), w1) \<Rightarrow>
             if status = 201 then
               (case response_json body of
                  Inl e \<Rightarrow> (Inl e, w1)
                | Inr location \<Rightarrow>
                    (case subscript location ''pk'' of
                       Inl e \<Rightarrow> (Inl e, w1)
                     | Inr pk \<Rightarrow>
                         (Inr location, w1\<lparr>location_cache := (location_cache w1)(name \<mapsto> pk)\<rparr>)))
             else if status = 400 then
               (case response_json body of
                  Inl e \<Rightarrow> (Inl e, w1)
                | Inr error \<Rightarrow>
                    if py_in ''already exists'' (lower (py_str error))
                    then get_existing_location api name (say (Already_exists name) w1)
                    else (Inr JNull, say (Failed_to_create name status) w1))
             else (Inr JNull, say (Failed_to_create name status) w1))"
    by (simp add: create_location_def location_payload_def)
  show ?thesis
    unfolding unfold req using t1
    by (auto simp: say_def trace_get_existing_location split: sum.splits prod.splits)
qed

lemma posted_names_create_location:
  "posted_names Stock_location (trace (snd (create_location api name description parent_id w)))
     = posted_names Stock_location (trace w) @ [name]"
proof -
  from trace_create_location [of api name description parent_id w]
  obtain rest where tr: "trace (snd (create_location api name description parent_id w))
       = trace w @ Sent (Post Stock_location (location_payload name description parent_id)) # rest"
    and rest: "rest \<in> {[], [Printed (Failed_to_create name 400)],
                [Printed (Already_exists name), Sent (Get Stock_location [(''name'', JStr name)])]}
          \<union> (\<lambda>status. [Printed (Failed_to_create name status)]) ` UNIV"
    by blast
  from rest have "posted_names Stock_location rest = []"
    by (auto simp: posted_names_simps)
  with tr show ?thesis
    by (simp add: posted_names_append posted_names_location_payload)
qed

lemma result_create_location:
  assumes "fst (create_location api name description parent_id w) = Inr loc"
  shows "loc = JNull \<or> (\<exists>d. loc = JDict d)"
proof -
  have dict: "subscript j ''pk'' = Inr pk \<Longrightarrow> \<exists>d. j = JDict d" for j pk
    by (cases j) simp_all
  from assms show ?thesis
    by (auto simp: create_location_def Let_def
        split: prod.splits sum.splits if_splits dest: dict result_get_existing_location)
qed

lemma truthy_location_pk:
  assumes "fst (create_location api name description parent_id w) = Inr loc" and "py_truthy loc"
  obtains pk where "attr_get loc ''pk'' JNull = Inr pk"
  using result_create_location [OF assms(1)] assms(2) by auto

section \<open>A conflict followed by an empty page of results\<close>

lemma get_existing_location_empty_results:
  assumes "map_of d ''results'' = Some (JList [])"
    and "api (remote w) (Get Stock_location [(''name'', JStr name)]) = (Reply 200 (Some (JDict d)), s')"
  shows "fst (get_existing_location api name w) = Inl IndexError"
proof -
  from assms(1) have "d \<noteq> []" by auto
  with assms show ?thesis
    by (simp add: get_existing_location_def request_Reply response_json_def)
qed

lemma get_existing_category_empty_results:
  assumes "map_of d ''results'' = Some (JList [])"
    and "api (remote w) (Get Part_category [(''name'', JStr name)]) = (Reply 200 (Some (JDict d)), s')"
  shows "fst (get_existing_category api name w) = Inl IndexError"
proof -
  from assms(1) have "d \<noteq> []" by auto
  with assms show ?thesis
    by (simp add: get_existing_category_def request_Reply response_json_def)
qed

text \<open>
  C9. A lookup answered with status 200 and a dict whose \<^verbatim>\<open>results\<close> is the empty list
  makes \<^verbatim>\<open>_get_existing_location\<close> and \<^verbatim>\<open>_get_existing_category\<close> take element 0
  of an empty list: they raise \<^verbatim>\<open>IndexError\<close>. So does the upsert that reaches them: a
  creation answered with 400 and an "already exists" body, followed by such a lookup, ends
  \<^verbatim>\<open>create_location\<close> and \<^verbatim>\<open>create_category\<close> with the exception; the resource is
  not skipped.
\<close>

theorem empty_results_lookup_raises:
  assumes "map_of d ''results'' = Some (JList [])"
    and "api (remote w) (Post Stock_location (JDict ([(''name'', JStr name),
            (''description'', JStr description)]
            @ (if py_truthy parent_id then [(''parent'', parent_id)] else []))))
          = (Reply 400 (Some error), s1)"
    and "api s1 (Get Stock_location [(''name'', JStr name)]) = (Reply 200 (Some (JDict d)), s2)"
    and "api (remote w) (Post Part_category (JDict [(''name'', JStr name),
            (''description'', JStr description)]))
          = (Reply 400 (Some error), s1)"
    and "api s1 (Get Part_category [(''name'', JStr name)]) = (Reply 200 (Some (JDict d)), s2)"
    and "py_in ''already exists'' (lower (py_str error))"
  shows "fst (get_existing_location api name (w\<lparr>remote := s1\<rparr>)) = Inl IndexError
       \<and> fst (get_existing_category api name (w\<lparr>remote := s1\<rparr>)) = Inl IndexError
       \<and> fst (create_location api name description parent_id w) = Inl IndexError
       \<and> fst (create_category api name description w) = Inl IndexError"
proof (intro conjI)
  show "fst (get_existing_location api name (w\<lparr>remote := s1\<rparr>)) = Inl IndexError"
    using assms(1,3) by (intro get_existing_location_empty_results) simp_all
  show "fst (get_existing_category api name (w\<lparr>remote := s1\<rparr>)) = Inl IndexError"
    using assms(1,5) by (intro get_existing_category_empty_results) simp_all
  show "fst (create_location api name description parent_id w) = Inl IndexError"
    using assms(1,2,3,6)
    by (simp add: create_location_def request_Reply response_json_def say_def
        get_existing_location_empty_results)
  show "fst (create_category api name description w) = Inl IndexError"
    using assms(1,4,5,6)
    by (simp add: create_category_def request_Reply response_json_def say_def
        get_existing_category_empty_results)
qed

theorem empty_results_lookup_raises_witness:
  "fst (create_location scripted ''Warehouse'' ''Main'' JNull
          (new_seeder [Reply 400 (Some (JDict [(''name'', JList [JStr ''already exists''])])),
                       Reply 200 (Some (JDict [(''count'', JInt 0), (''results'', JList [])]))]))
     = Inl IndexError
   \<and> fst (create_category scripted ''Warehouse'' ''Main''
          (new_seeder [Reply 400 (Some (JDict [(''name'', JList [JStr ''already exists''])])),
                       Reply 200 (Some (JDict [(''count'', JInt 0), (''results'', JList [])]))]))
     = Inl IndexError"
proof -
  have sniff: "py_in ''already exists''
      (lower (py_str (JDict [(''name'', JList [JStr ''already exists''])])))"
    by code_simp
  show ?thesis
    using empty_results_lookup_raises [of "[(''count'', JInt 0), (''results'', JList [])]"
        scripted
        "new_seeder [Reply 400 (Some (JDict [(''name'', JList [JStr ''already exists''])])),
                     Reply 200 (Some (JDict [(''count'', JInt 0), (''results'', JList [])]))]"
        "''Warehouse''" "''Main''" JNull
        "JDict [(''name'', JList [JStr ''already exists''])]"
        "[Reply 200 (Some (JDict [(''count'', JInt 0), (''results'', JList [])]))]" "[]",
        OF _ _ _ _ _ sniff]
    by (simp add: scripted_def new_seeder_def)
qed


section \<open>The readiness polls\<close>

text \<open>
  The number of probes a poll performs and what it returns, in terms of the replies the
  remote gives to the probes: \<^const>\<open>refused_before\<close> counts the replies refused before
  the first accepted one.  \<^const>\<open>wait_for_api\<close> (categories, locations and parts) accepts
  200, 401 and 403; the loop of \<^const>\<open>run\<close> (tenants) accepts 200 only.  The pause of
  \<^const>\<open>wait_for_api\<close> is a parameter: a negative one makes \<open>time.sleep\<close> raise
  after the first refused probe.
\<close>

lemma rounds_Suc: "rounds (Suc k) d = [Sent (Get Api_root []), Slept d] @ rounds k d"
  by (simp add: rounds_def)

lemma length_range: "length (py_range n) = nat n"
  by (simp add: py_range_def)

lemma wait_for_api_loop_spec:
  assumes "0 \<le> delay"
  shows "fst (wait_for_api_loop api delay attempts w)
     = Inr (refused_before accepted (probe_replies api (remote w) (length attempts)) < length attempts)
   \<and> trace (snd (wait_for_api_loop api delay attempts w))
     = trace w
       @ rounds (refused_before accepted (probe_replies api (remote w) (length attempts))) delay
       @ (if refused_before accepted (probe_replies api (remote w) (length attempts)) < length attempts
          then [Sent (Get Api_root [])] else [Printed Api_failed_to_respond])"
proof (induction attempts arbitrary: w)
  case Nil
  show ?case by (simp add: refused_before_def rounds_def say_def)
next
  case (Cons attempt attempts)
  obtain r s' where api: "api (remote w) (Get Api_root []) = (r, s')"
    by (cases "api (remote w) (Get Api_root [])")
  let ?w1 = "w\<lparr>remote := s', trace := trace w @ [Sent (Get Api_root [])]\<rparr>"
  let ?w2 = "?w1\<lparr>trace := trace ?w1 @ [Slept delay]\<rparr>"
  show ?case
  proof (cases "accepted r")
    case True
    with api show ?thesis
      by (simp add: send_def accepted_def refused_before_def rounds_def)
  next
    case False
    with api assms have step: "wait_for_api_loop api delay (attempt # attempts) w
        = wait_for_api_loop api delay attempts ?w2"
      by (simp add: send_def accepted_def sleep_def)
    have rb: "refused_before accepted (probe_replies api (remote w) (length (attempt # attempts)))
        = Suc (refused_before accepted (probe_replies api s' (length attempts)))"
      using api False by (simp add: refused_before_def)
    show ?thesis
      unfolding step rb using Cons.IH [of ?w2]
      by (simp add: rounds_Suc)
  qed
qed

lemma run_wait_spec:
  "fst (run_wait api attempts w)
     = Inr (refused_before answered_200 (probe_replies api (remote w) (length attempts)) < length attempts)
   \<and> trace (snd (run_wait api attempts w))
     = trace w
       @ rounds (refused_before answered_200 (probe_replies api (remote w) (length attempts))) 5
       @ (if refused_before answered_200 (probe_replies api (remote w) (length attempts)) < length attempts
          then [Sent (Get Api_root [])] else [Printed Api_not_available])"
proof (induction attempts arbitrary: w)
  case Nil
  show ?case by (simp add: refused_before_def rounds_def say_def)
next
  case (Cons attempt attempts)
  obtain r s' where api: "api (remote w) (Get Api_root []) = (r, s')"
    by (cases "api (remote w) (Get Api_root [])")
  let ?w1 = "w\<lparr>remote := s', trace := trace w @ [Sent (Get Api_root [])]\<rparr>"
  let ?w2 = "?w1\<lparr>trace := trace ?w1 @ [Slept 5]\<rparr>"
  show ?case
  proof (cases "answered_200 r")
    case True
    with api show ?thesis
      by (simp add: send_def answered_200_def refused_before_def rounds_def)
  next
    case False
    with api have step: "run_wait api (attempt # attempts) w = run_wait api attempts ?w2"
      by (simp add: send_def answered_200_def sleep_def)
    have rb: "refused_before answered_200 (probe_replies api (remote w) (length (attempt # attempts)))
        = Suc (refused_before answered_200 (probe_replies api s' (length attempts)))"
      using api False by (simp add: refused_before_def)
    show ?thesis
      unfolding step rb using Cons.IH [of ?w2]
      by (simp add: rounds_Suc)
  qed
qed

lemma wait_for_api_negative_delay:
  assumes "delay < 0" and "0 < max_retries"
    and "\<not> accepted (fst (api (remote w) (Get Api_root [])))"
  shows "fst (wait_for_api api max_retries delay w) = Inl ValueError"
    and "trace (snd (wait_for_api api max_retries delay w)) = trace w @ [Sent (Get Api_root [])]"
proof -
  from assms(2) have r: "py_range max_retries = 0 # map int [1..<nat max_retries]"
    by (simp add: py_range_def upt_conv_Cons)
  obtain r' s' where api: "api (remote w) (Get Api_root []) = (r', s')"
    by (cases "api (remote w) (Get Api_root [])")
  with assms(1,3) show "fst (wait_for_api api max_retries delay w) = Inl ValueError"
    and "trace (snd (wait_for_api api max_retries delay w)) = trace w @ [Sent (Get Api_root [])]"
    by (simp_all add: wait_for_api_def r send_def accepted_def sleep_def)
qed

text \<open>
  \<^bold>\<open>Claim C5\<close> (readiness poll contract), at the input where the tenant script departs
  from it.  The remote answers every probe with 401, an accepted status.  The poll of the
  category, location and parts scripts returns success after one probe.  The poll inside
  \<open>TenantSeeder.run\<close> tests \<open>status_code == 200\<close> only: \<^const>\<open>run\<close> sends twelve
  probes, each followed by a pause of five seconds, prints that the API is not available and
  returns failure, without a single authentication request.
\<close>

theorem tenant_poll_refuses_401:
  "accepted (Reply 401 None)
   \<and> fst (wait_for_api (always (Reply 401 None)) 30 5 (new_seeder ())) = Inr True
   \<and> trace (snd (wait_for_api (always (Reply 401 None)) 30 5 (new_seeder ())))
       = [Sent (Get Api_root [])]
   \<and> fst (run (always (Reply 401 None)) None (new_tenant_seeder ())) = Inr False
   \<and> trace (snd (run (always (Reply 401 None)) None (new_tenant_seeder ())))
       = rounds 12 5 @ [Printed Api_not_available]
   \<and> length (probes (trace (snd (run (always (Reply 401 None)) None (new_tenant_seeder ()))))) = 12"
proof -
  have k: "refused_before answered_200 (probe_replies (always (Reply 401 None)) () 12) = 12"
    by code_simp
  have k30: "refused_before accepted (probe_replies (always (Reply 401 None)) () 30) = 0"
    by (simp add: refused_before_def eval_nat_numeral always_def accepted_def)
  have r: "length (probes (rounds 12 5 @ [Printed Api_not_available])) = 12"
    by code_simp
  have a: "accepted (Reply 401 None)"
    by (simp add: accepted_def)
  have sib: "fst (wait_for_api (always (Reply 401 None)) 30 5 (new_seeder ())) = Inr True"
    "trace (snd (wait_for_api (always (Reply 401 None)) 30 5 (new_seeder ()))) = [Sent (Get Api_root [])]"
    using wait_for_api_loop_spec [of 5 "always (Reply 401 None)" "py_range 30" "new_seeder ()"]
    by (simp_all add: wait_for_api_def length_range k30 new_seeder_def rounds_def)
  have poll: "fst (run_wait (always (Reply 401 None)) (py_range 12) (new_tenant_seeder ())) = Inr False"
    and tr: "trace (snd (run_wait (always (Reply 401 None)) (py_range 12) (new_tenant_seeder ())))
      = rounds 12 5 @ [Printed Api_not_available]"
    using run_wait_spec [of "always (Reply 401 None)" "py_range 12" "new_tenant_seeder ()"]
    by (simp_all add: length_range k new_tenant_seeder_def)
  obtain w1 where rw: "run_wait (always (Reply 401 None)) (py_range 12) (new_tenant_seeder ())
      = (Inr False, w1)"
    using poll by (cases "run_wait (always (Reply 401 None)) (py_range 12) (new_tenant_seeder ())") simp
  with tr have tw1: "trace w1 = rounds 12 5 @ [Printed Api_not_available]" by simp
  have run: "run (always (Reply 401 None)) None (new_tenant_seeder ()) = (Inr False, w1)"
    using rw by (simp add: run_def)
  show ?thesis
    using a sib run tw1 r by simp
qed

section \<open>Conflicts and the lookup by name\<close>

text \<open>
  C2, as the code has it. A creation answered with 400 whose body, as
  \<^verbatim>\<open>str(error).lower()\<close>, contains "already exists" makes \<^verbatim>\<open>create_location\<close> and
  \<^verbatim>\<open>create_category\<close> print the notice, ask for the resource by name and, when the
  answer is 200 and a resource is found (for a location: one that is a dict), return that
  resource instead of a failure; \<^verbatim>\<open>create_location\<close> files its \<^verbatim>\<open>pk\<close> in the cache.
  \<^verbatim>\<open>create_category\<close> does the same for "unique". \<^verbatim>\<open>create_part\<close> returns
  \<^verbatim>\<open>True\<close> on either text and sends nothing after the creation call.
\<close>

theorem conflict_resolved_by_lookup:
  "(api (remote w) (Post Stock_location (location_payload name description parent_id))
       = (Reply 400 (Some error), s1)
     \<and> says_already_exists error
     \<and> api s1 (Get Stock_location [(''name'', JStr name)]) = (Reply 200 (Some found), s2)
     \<and> first_found found = Some loc \<and> attr_get loc ''pk'' JNull = Inr pk
     \<longrightarrow> create_location api name description parent_id w
         = (Inr loc,
            w\<lparr>remote := s2,
              trace := trace w @ [Sent (Post Stock_location (location_payload name description parent_id)),
                                  Printed (Already_exists name),
                                  Sent (Get Stock_location [(''name'', JStr name)])],
              location_cache := (location_cache w)(name \<mapsto> pk)\<rparr>))
   \<and> (api (remote w) (Post Part_category (category_payload name description))
       = (Reply 400 (Some error), s1)
     \<and> (says_already_exists error \<or> says_unique error)
     \<and> api s1 (Get Part_category [(''name'', JStr name)]) = (Reply 200 (Some found), s2)
     \<and> first_found found = Some loc
     \<longrightarrow> create_category api name description w
         = (Inr loc,
            w\<lparr>remote := s2,
              trace := trace w @ [Sent (Post Part_category (category_payload name description)),
                                  Printed (Already_exists name),
                                  Sent (Get Part_category [(''name'', JStr name)])]\<rparr>))
   \<and> (api (remote w) (Post Part (part_payload name description category_id min_stock))
       = (Reply 400 (Some error), s1)
     \<and> (says_already_exists error \<or> says_unique error)
     \<longrightarrow> create_part api name description category_id min_stock w
         = (Inr True,
            w\<lparr>remote := s1,
              trace := trace w @ [Sent (Post Part (part_payload name description category_id min_stock))]\<rparr>))"
proof (intro conjI impI)
  assume a: "api (remote w) (Post Stock_location (location_payload name description parent_id))
       = (Reply 400 (Some error), s1)
     \<and> says_already_exists error
     \<and> api s1 (Get Stock_location [(''name'', JStr name)]) = (Reply 200 (Some found), s2)
     \<and> first_found found = Some loc \<and> attr_get loc ''pk'' JNull = Inr pk"
  then show "create_location api name description parent_id w
         = (Inr loc,
            w\<lparr>remote := s2,
              trace := trace w @ [Sent (Post Stock_location (location_payload name description parent_id)),
                                  Printed (Already_exists name),
                                  Sent (Get Stock_location [(''name'', JStr name)])],
              location_cache := (location_cache w)(name \<mapsto> pk)\<rparr>)"
    by (simp add: create_location_conflict [of api w name description parent_id error s1]
        get_existing_location_found [of api _ name found s2 loc pk])
next
  assume a: "api (remote w) (Post Part_category (category_payload name description))
       = (Reply 400 (Some error), s1)
     \<and> (says_already_exists error \<or> says_unique error)
     \<and> api s1 (Get Part_category [(''name'', JStr name)]) = (Reply 200 (Some found), s2)
     \<and> first_found found = Some loc"
  then show "create_category api name description w
         = (Inr loc,
            w\<lparr>remote := s2,
              trace := trace w @ [Sent (Post Part_category (category_payload name description)),
                                  Printed (Already_exists name),
                                  Sent (Get Part_category [(''name'', JStr name)])]\<rparr>)"
    by (simp add: create_category_conflict [of api w name description error s1]
        get_existing_category_found [of api _ name found s2 loc])
next
  assume a: "api (remote w) (Post Part (part_payload name description category_id min_stock))
       = (Reply 400 (Some error), s1)
     \<and> (says_already_exists error \<or> says_unique error)"
  then show "create_part api name description category_id min_stock w
         = (Inr True,
            w\<lparr>remote := s1,
              trace := trace w @ [Sent (Post Part (part_payload name description category_id min_stock))]\<rparr>)"
    by (simp add: create_part_conflict)
qed

theorem conflict_resolved_by_lookup_witness:
  "fst (create_location scripted ''Warehouse'' ''Main'' JNull
     (new_seeder [Reply 400 (Some (JDict [(''name'', JList [JStr ''Already exists'']),
                                          (''code'', JStr ''unique'')])),
                  Reply 200 (Some (JList [JDict [(''pk'', JInt 7), (''name'', JStr ''Warehouse'')]]))]))
     = Inr (JDict [(''pk'', JInt 7), (''name'', JStr ''Warehouse'')])
   \<and> location_cache (snd (create_location scripted ''Warehouse'' ''Main'' JNull
     (new_seeder [Reply 400 (Some (JDict [(''name'', JList [JStr ''Already exists'']),
                                          (''code'', JStr ''unique'')])),
                  Reply 200 (Some (JList [JDict [(''pk'', JInt 7), (''name'', JStr ''Warehouse'')]]))])))
       ''Warehouse'' = Some (JInt 7)
   \<and> fst (create_category scripted ''Warehouse'' ''Main''
     (new_seeder [Reply 400 (Some (JDict [(''name'', JList [JStr ''Already exists'']),
                                          (''code'', JStr ''unique'')])),
                  Reply 200 (Some (JList [JDict [(''pk'', JInt 7), (''name'', JStr ''Warehouse'')]]))]))
     = Inr (JDict [(''pk'', JInt 7), (''name'', JStr ''Warehouse'')])
   \<and> fst (create_part scripted ''Warehouse'' ''Main'' (JInt 1) 5
     (new_seeder [Reply 400 (Some (JDict [(''name'', JList [JStr ''Already exists'']),
                                          (''code'', JStr ''unique'')])),
                  Reply 200 (Some (JList [JDict [(''pk'', JInt 7), (''name'', JStr ''Warehouse'')]]))]))
     = Inr True
   \<and> sent (trace (snd (create_part scripted ''Warehouse'' ''Main'' (JInt 1) 5
     (new_seeder [Reply 400 (Some (JDict [(''name'', JList [JStr ''Already exists'']),
                                          (''code'', JStr ''unique'')])),
                  Reply 200 (Some (JList [JDict [(''pk'', JInt 7), (''name'', JStr ''Warehouse'')]]))]))))
     = [Post Part (part_payload ''Warehouse'' ''Main'' (JInt 1) 5)]"
proof -
  have sniff: "says_already_exists (JDict [(''name'', JList [JStr ''Already exists'']),
      (''code'', JStr ''unique'')])"
    by code_simp
  have found: "first_found (JList [JDict [(''pk'', JInt 7), (''name'', JStr ''Warehouse'')]])
      = Some (JDict [(''pk'', JInt 7), (''name'', JStr ''Warehouse'')])"
    by (simp add: first_found_def)
  show ?thesis
    using conflict_resolved_by_lookup [of scripted
        "new_seeder [Reply 400 (Some (JDict [(''name'', JList [JStr ''Already exists'']),
                                             (''code'', JStr ''unique'')])),
                     Reply 200 (Some (JList [JDict [(''pk'', JInt 7), (''name'', JStr ''Warehouse'')]]))]"
        "''Warehouse''" "''Main''" JNull
        "JDict [(''name'', JList [JStr ''Already exists'']), (''code'', JStr ''unique'')]"
        "[Reply 200 (Some (JList [JDict [(''pk'', JInt 7), (''name'', JStr ''Warehouse'')]]))]"
        "JList [JDict [(''pk'', JInt 7), (''name'', JStr ''Warehouse'')]]" "[]"
        "JDict [(''pk'', JInt 7), (''name'', JStr ''Warehouse'')]" "JInt 7" "JInt 1" 5]
      sniff found
    by (simp add: scripted_def new_seeder_def sent_def)
qed

text \<open>
  The claim as stated fails. The body of the 400 answer below contains "unique" (it is the
  message of a uniqueness constraint over name and parent). \<^verbatim>\<open>create_part\<close>
  returns \<^verbatim>\<open>True\<close> after its one request: no lookup, no identifier. And
  \<^verbatim>\<open>create_location\<close>, which tests for "already exists" only, reports a failure and
  returns \<^verbatim>\<open>None\<close>, again after its one request.
\<close>

theorem conflict_without_lookup:
  "says_unique (JDict [(''non_field_errors'',
       JList [JStr ''The fields name, parent must make a unique set.''])])
   \<and> fst (create_part scripted ''Samsung 990 Pro 2TB'' ''NVMe'' (JInt 1) 10
       (new_seeder [Reply 400 (Some (JDict [(''non_field_errors'',
          JList [JStr ''The fields name, parent must make a unique set.''])]))]))
     = Inr True
   \<and> trace (snd (create_part scripted ''Samsung 990 Pro 2TB'' ''NVMe'' (JInt 1) 10
       (new_seeder [Reply 400 (Some (JDict [(''non_field_errors'',
          JList [JStr ''The fields name, parent must make a unique set.''])]))])))
     = [Sent (Post Part (part_payload ''Samsung 990 Pro 2TB'' ''NVMe'' (JInt 1) 10))]
   \<and> fst (create_location scripted ''Warehouse'' ''Main'' JNull
       (new_seeder [Reply 400 (Some (JDict [(''non_field_errors'',
          JList [JStr ''The fields name, parent must make a unique set.''])]))]))
     = Inr JNull
   \<and> trace (snd (create_location scripted ''Warehouse'' ''Main'' JNull
       (new_seeder [Reply 400 (Some (JDict [(''non_field_errors'',
          JList [JStr ''The fields name, parent must make a unique set.''])]))])))
     = [Sent (Post Stock_location (location_payload ''Warehouse'' ''Main'' JNull)),
        Printed (Failed_to_create ''Warehouse'' 400)]"
  by code_simp

end
